theory Spec2Isabelle
  imports Main
begin

section \<open>The Clerk webhook handler of \<^verbatim>\<open>supabase/functions/clerk-webhooks-2/index.ts\<close>\<close>

text \<open>
  The repository is one request handler, the function given to \<^verbatim>\<open>Deno.serve\<close>. It reads
  three environment variables and three request headers, parses the request body as JSON,
  and issues at most one call to the Supabase client, chosen by the \<^verbatim>\<open>type\<close> of the event.

  The handler is modelled as a function from the world it runs in (the environment, the
  store behind the Supabase client) and the request to a \<^emph>\<open>run\<close>: the list of effects in
  the order the handler performs them, and its outcome, which is either the
  \<^verbatim>\<open>Response\<close> it returns or the JavaScript exception it throws.
\<close>

subsection \<open>JavaScript values\<close>

text \<open>
  The values the handler touches: what \<^verbatim>\<open>JSON.parse\<close> produces, and \<^verbatim>\<open>undefined\<close>, the
  result of reading a property that is not there. An object is the list of its own
  properties, each name once. Numbers are the integer-valued ones: every integer that is
  a valid time value of a \<^verbatim>\<open>Date\<close> is exactly a double.
\<close>

datatype jsval =
    JUndefined
  | JNull
  | JBool bool
  | JNum int
  | JStr string
  | JArr "jsval list"
  | JObj "(string \<times> jsval) list"

datatype js_error = SyntaxError | TypeError | RangeError

text \<open>
  \<^verbatim>\<open>v.k\<close>: reading a property of \<^verbatim>\<open>undefined\<close> or \<^verbatim>\<open>null\<close> throws a TypeError; an object
  gives its own property or \<^verbatim>\<open>undefined\<close>. None of the property names the handler reads
  (\<^verbatim>\<open>type\<close>, \<^verbatim>\<open>data\<close>, \<^verbatim>\<open>id\<close>, \<^verbatim>\<open>name\<close>, \<^verbatim>\<open>first_name\<close>, ...) is inherited from a prototype
  of a string, number, boolean, array or plain object, so there the read gives
  \<^verbatim>\<open>undefined\<close>.
\<close>

fun get_prop :: "jsval \<Rightarrow> string \<Rightarrow> js_error + jsval" where
  "get_prop JUndefined k = Inl TypeError"
| "get_prop JNull k = Inl TypeError"
| "get_prop (JObj kvs) k = Inr (case map_of kvs k of None \<Rightarrow> JUndefined | Some v \<Rightarrow> v)"
| "get_prop v k = Inr JUndefined"

text \<open>\<^verbatim>\<open>v?.k\<close>: \<^verbatim>\<open>undefined\<close> when \<^verbatim>\<open>v\<close> is \<^verbatim>\<open>undefined\<close> or \<^verbatim>\<open>null\<close>, the property read otherwise.\<close>

fun opt_chain :: "jsval \<Rightarrow> string \<Rightarrow> js_error + jsval" where
  "opt_chain JUndefined k = Inr JUndefined"
| "opt_chain JNull k = Inr JUndefined"
| "opt_chain v k = get_prop v k"

text \<open>Evaluation in sequence: the first exception ends it.\<close>

fun and_then :: "js_error + 'a \<Rightarrow> ('a \<Rightarrow> js_error + 'b) \<Rightarrow> js_error + 'b" where
  "and_then (Inl e) f = Inl e"
| "and_then (Inr v) f = f v"

text \<open>
  An object literal \<^verbatim>\<open>{ k1: e1, k2: e2, ... }\<close>: the property values are evaluated in
  the order they are written, and the first one that throws ends the evaluation.
\<close>

fun object_literal :: "(string \<times> (js_error + jsval)) list \<Rightarrow> js_error + (string \<times> jsval) list" where
  "object_literal [] = Inr []"
| "object_literal ((k, Inl e) # rest) = Inl e"
| "object_literal ((k, Inr v) # rest) =
     (case object_literal rest of Inl e \<Rightarrow> Inl e | Inr r \<Rightarrow> Inr ((k, v) # r))"

text \<open>
  \<^verbatim>\<open>!x\<close> for \<^verbatim>\<open>x\<close> a string or absent (\<^verbatim>\<open>Deno.env.get\<close> gives \<^verbatim>\<open>undefined\<close>,
  \<^verbatim>\<open>Headers.get\<close> gives \<^verbatim>\<open>null\<close>): true when \<^verbatim>\<open>x\<close> is absent or the empty string.
\<close>

fun js_not :: "string option \<Rightarrow> bool" where
  "js_not None = True"
| "js_not (Some s) = (s = [])"

subsection \<open>Dates\<close>

text \<open>
  \<^verbatim>\<open>new Date(v).toISOString()\<close> is a built-in of the JavaScript runtime, not code of
  the repository. The model transcribes its definition in the ECMAScript standard
  (the section on time values and on \<^verbatim>\<open>Date.prototype.toISOString\<close>): a time value is an
  integer number of milliseconds since the epoch, at most \<open>8.64 \<times> 10\<^sup>1\<^sup>5\<close> in absolute
  value; everything else is an invalid date, on which \<^verbatim>\<open>toISOString\<close> throws a
  RangeError.
\<close>

definition time_clip :: "int \<Rightarrow> int option" where
  "time_clip t = (if \<bar>t\<bar> \<le> 8640000000000000 then Some t else None)"

definition ms_per_day :: int where
  "ms_per_day = 86400000"

text \<open>\<^verbatim>\<open>Day(t)\<close>, the day number of a time value, and the days of a year.\<close>

definition day :: "int \<Rightarrow> int" where
  "day t = t div ms_per_day"

definition days_in_year :: "int \<Rightarrow> int" where
  "days_in_year y =
     (if y mod 4 \<noteq> 0 then 365 else if y mod 100 \<noteq> 0 then 366
      else if y mod 400 \<noteq> 0 then 365 else 366)"

text \<open>\<^verbatim>\<open>DayFromYear(y)\<close>, the day number of the first day of year \<open>y\<close>.\<close>

definition day_from_year :: "int \<Rightarrow> int" where
  "day_from_year y =
     365 * (y - 1970) + (y - 1969) div 4 - (y - 1901) div 100 + (y - 1601) div 400"

text \<open>
  \<^verbatim>\<open>YearFromTime(t)\<close> is the largest \<open>y\<close> whose first day is not after \<open>t\<close>. It is
  computed from an estimate that is off by at most one: a year has 146097 / 400 days on
  average. That it is the largest such year is proved below.
\<close>

definition year_from_day :: "int \<Rightarrow> int" where
  "year_from_day z =
     (let y = 1970 + (400 * z) div 146097
      in if day_from_year (y + 1) \<le> z then y + 1
         else if day_from_year y \<le> z then y
         else y - 1)"

definition year_from_time :: "int \<Rightarrow> int" where
  "year_from_time t = year_from_day (day t)"

text \<open>\<^verbatim>\<open>DayWithinYear(t)\<close>, \<^verbatim>\<open>InLeapYear(t)\<close>, and the tables of \<^verbatim>\<open>MonthFromTime(t)\<close> and \<^verbatim>\<open>DateFromTime(t)\<close>.\<close>

definition day_within_year :: "int \<Rightarrow> int" where
  "day_within_year t = day t - day_from_year (year_from_time t)"

definition in_leap_year :: "int \<Rightarrow> int" where
  "in_leap_year t = (if days_in_year (year_from_time t) = 366 then 1 else 0)"

definition month_from_time :: "int \<Rightarrow> int" where
  "month_from_time t =
     (let d = day_within_year t; l = in_leap_year t
      in if d < 31 then 0
         else if d < 59 + l then 1
         else if d < 90 + l then 2
         else if d < 120 + l then 3
         else if d < 151 + l then 4
         else if d < 181 + l then 5
         else if d < 212 + l then 6
         else if d < 243 + l then 7
         else if d < 273 + l then 8
         else if d < 304 + l then 9
         else if d < 334 + l then 10
         else 11)"

definition date_from_time :: "int \<Rightarrow> int" where
  "date_from_time t =
     (let d = day_within_year t; l = in_leap_year t; m = month_from_time t
      in if m = 0 then d + 1
         else if m = 1 then d - 30
         else if m = 2 then d - 58 - l
         else if m = 3 then d - 89 - l
         else if m = 4 then d - 119 - l
         else if m = 5 then d - 150 - l
         else if m = 6 then d - 180 - l
         else if m = 7 then d - 211 - l
         else if m = 8 then d - 242 - l
         else if m = 9 then d - 272 - l
         else if m = 10 then d - 303 - l
         else d - 333 - l)"

text \<open>The time within the day.\<close>

definition hour_from_time :: "int \<Rightarrow> int" where
  "hour_from_time t = (t div 3600000) mod 24"

definition min_from_time :: "int \<Rightarrow> int" where
  "min_from_time t = (t div 60000) mod 60"

definition sec_from_time :: "int \<Rightarrow> int" where
  "sec_from_time t = (t div 1000) mod 60"

definition ms_from_time :: "int \<Rightarrow> int" where
  "ms_from_time t = t mod 1000"

text \<open>The decimal digits of a non-negative number, padded with zeros to a width.\<close>

definition digit :: "int \<Rightarrow> char" where
  "digit n = ''0123456789'' ! nat (n mod 10)"

fun pad :: "nat \<Rightarrow> int \<Rightarrow> string" where
  "pad 0 n = []"
| "pad (Suc w) n = pad w (n div 10) @ [digit n]"

text \<open>
  The year of an ISO string: four digits from 0 to 9999, and the expanded form, a sign
  and six digits, outside.
\<close>

definition iso_year :: "int \<Rightarrow> string" where
  "iso_year y =
     (if 0 \<le> y \<and> y \<le> 9999 then pad 4 y
      else if y < 0 then CHR ''-'' # pad 6 (- y)
      else CHR ''+'' # pad 6 y)"

text \<open>\<^verbatim>\<open>YYYY-MM-DDTHH:mm:ss.sssZ\<close>, the month counted from 1.\<close>

definition iso_string :: "int \<Rightarrow> string" where
  "iso_string t =
     iso_year (year_from_time t) @ ''-'' @ pad 2 (month_from_time t + 1) @ ''-''
     @ pad 2 (date_from_time t) @ ''T'' @ pad 2 (hour_from_time t) @ '':''
     @ pad 2 (min_from_time t) @ '':'' @ pad 2 (sec_from_time t) @ ''.''
     @ pad 3 (ms_from_time t) @ ''Z''"

subsection \<open>The world of the handler\<close>

text \<open>
  A call to the Supabase client, as the source chains it:
  \<^verbatim>\<open>supabase.from(table).verb(values)\<close>, for an update followed by \<^verbatim>\<open>.eq(column, value)\<close>,
  and always by \<^verbatim>\<open>.select().single()\<close>. The verb is the method name the source writes.
  An insert is given an array of one object, the others the object itself.
\<close>

record store_call =
  table :: string
  verb :: string
  vals :: "(string \<times> jsval) list"
  eq_filter :: "(string \<times> jsval) option"

text \<open>
  What the awaited call gives, \<^verbatim>\<open>{ data, error }\<close>: an error with its message, or the
  affected row.
\<close>

datatype store_result = Failed string | Succeeded jsval

text \<open>
  The client library and the runtime are not code of the repository; they are parameters
  of the model: the environment variables, the answer of the store to each call, and the
  runtime's parsing of a date from a value that is not a number.
\<close>

record world =
  env_get :: "string \<Rightarrow> string option"
  store :: "store_call \<Rightarrow> store_result"
  date_parse :: "jsval \<Rightarrow> int option"

text \<open>
  A request: its headers as \<^verbatim>\<open>req.headers.get\<close> reads them, and what \<^verbatim>\<open>await req.json()\<close>
  gives, \<open>None\<close> when the body is not JSON text and the promise rejects with a
  SyntaxError.
\<close>

record request =
  header_get :: "string \<Rightarrow> string option"
  json :: "jsval option"

text \<open>
  A response: \<^verbatim>\<open>new Response(text, { status })\<close>. The body is either a fixed text or
  \<^verbatim>\<open>JSON.stringify\<close> of a value, kept as the value.
\<close>

datatype resp_body = Text string | Json jsval

record response =
  status :: nat
  body :: resp_body

datatype effect =
    EnvGet string
  | HeaderGet string
  | ReadJson
  | StoreCall store_call
  | ConsoleError string string
  | ConsoleLog string jsval

record run =
  trace :: "effect list"
  outcome :: "js_error + response"

definition returns :: "effect list \<Rightarrow> response \<Rightarrow> run" where
  "returns t r = \<lparr>trace = t, outcome = Inr r\<rparr>"

definition throws :: "effect list \<Rightarrow> js_error \<Rightarrow> run" where
  "throws t e = \<lparr>trace = t, outcome = Inl e\<rparr>"

definition after :: "effect list \<Rightarrow> run \<Rightarrow> run" where
  "after t r = \<lparr>trace = t @ trace r, outcome = outcome r\<rparr>"

text \<open>The store calls of a run, in order.\<close>

fun store_calls :: "effect list \<Rightarrow> store_call list" where
  "store_calls [] = []"
| "store_calls (StoreCall c # es) = c # store_calls es"
| "store_calls (e # es) = store_calls es"

subsection \<open>Reading the event\<close>

text \<open>
  \<^verbatim>\<open>new Date(v)\<close> for a value that is not a Date: a number is clipped to the range of
  time values, \<^verbatim>\<open>undefined\<close> converts to NaN, \<^verbatim>\<open>null\<close> to 0, a boolean to 0 or 1; a
  string, array or object is parsed as a date by the runtime. \<open>None\<close> is the invalid
  date.
\<close>

fun new_Date :: "world \<Rightarrow> jsval \<Rightarrow> int option" where
  "new_Date w (JNum n) = time_clip n"
| "new_Date w JUndefined = None"
| "new_Date w JNull = Some 0"
| "new_Date w (JBool b) = Some (if b then 1 else 0)"
| "new_Date w v = Option.bind (date_parse w v) time_clip"

fun toISOString :: "int option \<Rightarrow> js_error + jsval" where
  "toISOString None = Inl RangeError"
| "toISOString (Some t) = Inr (JStr (iso_string t))"

text \<open>\<^verbatim>\<open>event.data.k\<close>\<close>

definition data_prop :: "jsval \<Rightarrow> string \<Rightarrow> js_error + jsval" where
  "data_prop event k = and_then (get_prop event ''data'') (\<lambda>d. get_prop d k)"

text \<open>\<^verbatim>\<open>event.data.n?.k\<close>\<close>

definition data_opt :: "jsval \<Rightarrow> string \<Rightarrow> string \<Rightarrow> js_error + jsval" where
  "data_opt event n k = and_then (data_prop event n) (\<lambda>v. opt_chain v k)"

text \<open>\<^verbatim>\<open>new Date(event.data.k).toISOString()\<close>\<close>

definition data_iso :: "world \<Rightarrow> jsval \<Rightarrow> string \<Rightarrow> js_error + jsval" where
  "data_iso w event k = and_then (data_prop event k) (\<lambda>v. toISOString (new_Date w v))"

subsection \<open>The branches of the switch\<close>

text \<open>
  What every branch does with a store call it has made: await it, and on an error log it
  and answer 500 with the message, otherwise answer 200 with the row under the branch's
  key.
\<close>

definition await_store :: "world \<Rightarrow> store_call \<Rightarrow> string \<Rightarrow> string \<Rightarrow> run" where
  "await_store w c label key =
     (case store w c of
        Failed msg \<Rightarrow>
          returns [StoreCall c, ConsoleError label msg]
            \<lparr>status = 500, body = Json (JObj [(''error'', JStr msg)])\<rparr>
      | Succeeded row \<Rightarrow>
          returns [StoreCall c] \<lparr>status = 200, body = Json (JObj [(key, row)])\<rparr>)"

text \<open>
  Modelled from the spec: the methods of the data-store client, a library the source
  imports (\<^verbatim>\<open>supabase-js\<close> 2.39.3, line 7) and not code of the repository. The spec
  describes the client as exposing table-scoped insert, update and select operations.
  The query builder that \<^verbatim>\<open>supabase.from(table)\<close> returns in that version has \<^verbatim>\<open>upsert\<close>
  and \<^verbatim>\<open>delete\<close> besides, which the handler never calls. There is no \<^verbatim>\<open>create\<close>.
\<close>

definition query_builder_methods :: "string list" where
  "query_builder_methods = [''insert'', ''update'', ''select'']"

text \<open>
  \<^verbatim>\<open>supabase.from(table).verb(values)\<close>: the argument is evaluated first; then a verb that
  is a method of the query builder makes the call, which is awaited, and one that is not
  a method throws a TypeError (the property is \<^verbatim>\<open>undefined\<close>, which cannot be called).
\<close>

definition builder_call :: "world \<Rightarrow> store_call \<Rightarrow> string \<Rightarrow> string \<Rightarrow> run" where
  "builder_call w c label key =
     (if verb c \<in> set query_builder_methods then await_store w c label key
      else throws [] TypeError)"

definition user_created :: "world \<Rightarrow> jsval \<Rightarrow> run" where
  "user_created w event =
     (case object_literal
        [(''id'', data_prop event ''id''),
         (''first_name'', data_prop event ''first_name''),
         (''last_name'', data_prop event ''last_name''),
         (''avatar_url'', data_prop event ''image_url''),
         (''created_at'', data_iso w event ''created_at''),
         (''updated_at'', data_iso w event ''updated_at'')] of
        Inl e \<Rightarrow> throws [] e
      | Inr row \<Rightarrow>
          builder_call w
            \<lparr>table = ''users'', verb = ''insert'', vals = row, eq_filter = None\<rparr>
            ''Error creating user:'' ''user'')"

definition user_updated :: "world \<Rightarrow> jsval \<Rightarrow> run" where
  "user_updated w event =
     (case object_literal
        [(''first_name'', data_prop event ''first_name''),
         (''last_name'', data_prop event ''last_name''),
         (''avatar_url'', data_prop event ''image_url''),
         (''updated_at'', data_iso w event ''updated_at'')] of
        Inl e \<Rightarrow> throws [] e
      | Inr row \<Rightarrow>
          (case data_prop event ''id'' of
             Inl e \<Rightarrow> throws [] e
           | Inr i \<Rightarrow>
               builder_call w
                 \<lparr>table = ''users'', verb = ''update'', vals = row,
                  eq_filter = Some (''id'', i)\<rparr>
                 ''Error updating user:'' ''user''))"

definition organization_created :: "world \<Rightarrow> jsval \<Rightarrow> run" where
  "organization_created w event =
     (case object_literal
        [(''id'', data_prop event ''id''),
         (''name'', data_prop event ''name''),
         (''updated_at'', data_iso w event ''updated_at'')] of
        Inl e \<Rightarrow> throws [] e
      | Inr row \<Rightarrow>
          builder_call w
            \<lparr>table = ''organizations'', verb = ''create'', vals = row, eq_filter = None\<rparr>
            ''Error updating owner:'' ''data'')"

definition organization_updated :: "world \<Rightarrow> jsval \<Rightarrow> run" where
  "organization_updated w event =
     (case object_literal
        [(''name'', data_prop event ''name''),
         (''updated_at'', data_iso w event ''updated_at'')] of
        Inl e \<Rightarrow> throws [] e
      | Inr row \<Rightarrow>
          (case data_prop event ''id'' of
             Inl e \<Rightarrow> throws [] e
           | Inr i \<Rightarrow>
               builder_call w
                 \<lparr>table = ''owners'', verb = ''update'', vals = row,
                  eq_filter = Some (''id'', i)\<rparr>
                 ''Error updating owner:'' ''data''))"

definition membership_created :: "world \<Rightarrow> jsval \<Rightarrow> run" where
  "membership_created w event =
     (case object_literal
        [(''id'', data_prop event ''id''),
         (''user_id'', data_opt event ''public_user_data'' ''user_id''),
         (''organization_id'', data_opt event ''organization'' ''id''),
         (''created_at'', data_iso w event ''created_at''),
         (''updated_at'', data_iso w event ''updated_at'')] of
        Inl e \<Rightarrow> throws [] e
      | Inr row \<Rightarrow>
          builder_call w
            \<lparr>table = ''members'', verb = ''insert'', vals = row, eq_filter = None\<rparr>
            ''Error updating member:'' ''data'')"

definition membership_updated :: "world \<Rightarrow> jsval \<Rightarrow> run" where
  "membership_updated w event =
     (case object_literal
        [(''user_id'', data_opt event ''public_user_data'' ''user_id''),
         (''organization_id'', data_opt event ''organization'' ''id''),
         (''updated_at'', data_iso w event ''updated_at'')] of
        Inl e \<Rightarrow> throws [] e
      | Inr row \<Rightarrow>
          (case data_prop event ''id'' of
             Inl e \<Rightarrow> throws [] e
           | Inr i \<Rightarrow>
               builder_call w
                 \<lparr>table = ''members'', verb = ''update'', vals = row,
                  eq_filter = Some (''id'', i)\<rparr>
                 ''Error updating member:'' ''data''))"

text \<open>
  \<^verbatim>\<open>switch (event.type)\<close>: reading \<^verbatim>\<open>type\<close> of a \<^verbatim>\<open>null\<close> payload throws; the cases are
  compared with strict equality, so only a string selects one.
\<close>

definition dispatch :: "world \<Rightarrow> jsval \<Rightarrow> run" where
  "dispatch w event =
     (case get_prop event ''type'' of
        Inl e \<Rightarrow> throws [] e
      | Inr ty \<Rightarrow>
          if ty = JStr ''user.created'' then user_created w event
          else if ty = JStr ''user.updated'' then user_updated w event
          else if ty = JStr ''organization.created'' then organization_created w event
          else if ty = JStr ''organization.updated'' then organization_updated w event
          else if ty = JStr ''organizationMembership.created'' then membership_created w event
          else if ty = JStr ''organizationMembership.updated'' then membership_updated w event
          else returns [ConsoleLog ''Unhandled event type:'' event]
                 \<lparr>status = 200, body = Json (JObj [(''success'', JBool True)])\<rparr>)"

subsection \<open>The handler\<close>

text \<open>
  The function given to \<^verbatim>\<open>Deno.serve\<close>, statement by statement. \<^verbatim>\<open>JSON.stringify(payload)\<close>
  after the body is read cannot throw on parsed JSON and its result is not used.
  \<^verbatim>\<open>createClient\<close> is called once both credentials are non-empty; it belongs to the client
  library, is taken to return, and the client it makes is the \<open>store\<close> of the world.
\<close>

definition handler :: "world \<Rightarrow> request \<Rightarrow> run" where
  "handler w req =
     (let t1 = [EnvGet ''CLERK_WEBHOOK_SECRET''] in
      if js_not (env_get w ''CLERK_WEBHOOK_SECRET'')
      then returns t1 \<lparr>status = 500, body = Text ''Webhook secret not configured''\<rparr>
      else
        let t2 = t1 @ [HeaderGet ''svix-id'', HeaderGet ''svix-timestamp'',
                       HeaderGet ''svix-signature''] in
        if js_not (header_get req ''svix-id'') \<or> js_not (header_get req ''svix-timestamp'')
           \<or> js_not (header_get req ''svix-signature'')
        then returns t2 \<lparr>status = 400, body = Text ''Error occured -- no svix headers''\<rparr>
        else
          let t3 = t2 @ [ReadJson] in
          case json req of
            None \<Rightarrow> throws t3 SyntaxError
          | Some payload \<Rightarrow>
              let t4 = t3 @ [EnvGet ''SUPABASE_URL'', EnvGet ''SUPABASE_SERVICE_ROLE_KEY''] in
              if js_not (env_get w ''SUPABASE_URL'')
                 \<or> js_not (env_get w ''SUPABASE_SERVICE_ROLE_KEY'')
              then returns t4 \<lparr>status = 500, body = Text ''Supabase credentials not configured''\<rparr>
              else after t4 (dispatch w payload))"

subsection \<open>Requests that reach the switch\<close>

text \<open>
  The three environment variables are set to non-empty strings; the three signature
  headers are present and non-empty. These are the checks of the handler, negated.
\<close>

definition configured :: "world \<Rightarrow> bool" where
  "configured w =
     (\<not> js_not (env_get w ''CLERK_WEBHOOK_SECRET'') \<and> \<not> js_not (env_get w ''SUPABASE_URL'')
      \<and> \<not> js_not (env_get w ''SUPABASE_SERVICE_ROLE_KEY''))"

definition signed :: "request \<Rightarrow> bool" where
  "signed req =
     (\<not> js_not (header_get req ''svix-id'') \<and> \<not> js_not (header_get req ''svix-timestamp'')
      \<and> \<not> js_not (header_get req ''svix-signature''))"

text \<open>The effects of the handler before the switch, when every check passes.\<close>

definition prelude :: "effect list" where
  "prelude =
     [EnvGet ''CLERK_WEBHOOK_SECRET'', HeaderGet ''svix-id'', HeaderGet ''svix-timestamp'',
      HeaderGet ''svix-signature'', ReadJson, EnvGet ''SUPABASE_URL'',
      EnvGet ''SUPABASE_SERVICE_ROLE_KEY'']"

text \<open>\<^verbatim>\<open>o.k\<close> for an object given by its properties.\<close>

definition field :: "(string \<times> jsval) list \<Rightarrow> string \<Rightarrow> jsval" where
  "field kvs k = (case map_of kvs k of None \<Rightarrow> JUndefined | Some v \<Rightarrow> v)"

text \<open>The six event types that have a case in the switch.\<close>

definition recognized :: "jsval list" where
  "recognized =
     [JStr ''user.created'', JStr ''user.updated'', JStr ''organization.created'',
      JStr ''organization.updated'', JStr ''organizationMembership.created'',
      JStr ''organizationMembership.updated'']"

subsection \<open>The switch in explicit form\<close>

text \<open>
  The property read as a total function: \<^verbatim>\<open>undefined\<close> wherever the read has nothing to
  give. It agrees with \<open>get_prop\<close> on every value that is not \<^verbatim>\<open>undefined\<close> or \<^verbatim>\<open>null\<close>,
  and with \<^verbatim>\<open>?.\<close> everywhere.
\<close>

fun peek :: "jsval \<Rightarrow> string \<Rightarrow> jsval" where
  "peek (JObj kvs) k = field kvs k"
| "peek v k = JUndefined"

text \<open>The values whose properties cannot be read.\<close>

definition nullish :: "jsval \<Rightarrow> bool" where
  "nullish v = (v = JUndefined \<or> v = JNull)"

text \<open>
  The five calls the switch makes, for event data \<open>d\<close> and the time values of the
  timestamps it converts.
\<close>

definition insert_users :: "jsval \<Rightarrow> int \<Rightarrow> int \<Rightarrow> store_call" where
  "insert_users d tc tu =
     \<lparr>table = ''users'', verb = ''insert'',
      vals = [(''id'', peek d ''id''), (''first_name'', peek d ''first_name''),
              (''last_name'', peek d ''last_name''), (''avatar_url'', peek d ''image_url''),
              (''created_at'', JStr (iso_string tc)), (''updated_at'', JStr (iso_string tu))],
      eq_filter = None\<rparr>"

definition update_users :: "jsval \<Rightarrow> int \<Rightarrow> store_call" where
  "update_users d tu =
     \<lparr>table = ''users'', verb = ''update'',
      vals = [(''first_name'', peek d ''first_name''), (''last_name'', peek d ''last_name''),
              (''avatar_url'', peek d ''image_url''), (''updated_at'', JStr (iso_string tu))],
      eq_filter = Some (''id'', peek d ''id'')\<rparr>"

definition update_owners :: "jsval \<Rightarrow> int \<Rightarrow> store_call" where
  "update_owners d tu =
     \<lparr>table = ''owners'', verb = ''update'',
      vals = [(''name'', peek d ''name''), (''updated_at'', JStr (iso_string tu))],
      eq_filter = Some (''id'', peek d ''id'')\<rparr>"

definition insert_members :: "jsval \<Rightarrow> int \<Rightarrow> int \<Rightarrow> store_call" where
  "insert_members d tc tu =
     \<lparr>table = ''members'', verb = ''insert'',
      vals = [(''id'', peek d ''id''),
              (''user_id'', peek (peek d ''public_user_data'') ''user_id''),
              (''organization_id'', peek (peek d ''organization'') ''id''),
              (''created_at'', JStr (iso_string tc)), (''updated_at'', JStr (iso_string tu))],
      eq_filter = None\<rparr>"

definition update_members :: "jsval \<Rightarrow> int \<Rightarrow> store_call" where
  "update_members d tu =
     \<lparr>table = ''members'', verb = ''update'',
      vals = [(''user_id'', peek (peek d ''public_user_data'') ''user_id''),
              (''organization_id'', peek (peek d ''organization'') ''id''),
              (''updated_at'', JStr (iso_string tu))],
      eq_filter = Some (''id'', peek d ''id'')\<rparr>"

text \<open>The time value of a date, or the RangeError that \<^verbatim>\<open>toISOString\<close> throws.\<close>

definition date_value :: "int option \<Rightarrow> js_error + int" where
  "date_value x = (case x of None \<Rightarrow> Inl RangeError | Some t \<Rightarrow> Inr t)"

text \<open>
  The switch in explicit form, for a recognized type and an event whose data can be read:
  the call, the label of its error log and the key of its success body; a RangeError
  when a timestamp the branch converts is not a valid date; and for
  \<^verbatim>\<open>organization.created\<close> the TypeError of calling \<^verbatim>\<open>create\<close>, after its argument has been
  evaluated. It is proved equal to \<open>dispatch\<close> below.
\<close>

definition routed :: "world \<Rightarrow> jsval \<Rightarrow> jsval \<Rightarrow> js_error + (store_call \<times> string \<times> string)" where
  "routed w ty d =
     (let created = date_value (new_Date w (peek d ''created_at''));
          updated = date_value (new_Date w (peek d ''updated_at''))
      in if ty = JStr ''user.created'' then
           and_then created (\<lambda>tc. and_then updated (\<lambda>tu.
             Inr (insert_users d tc tu, ''Error creating user:'', ''user'')))
         else if ty = JStr ''user.updated'' then
           and_then updated (\<lambda>tu. Inr (update_users d tu, ''Error updating user:'', ''user''))
         else if ty = JStr ''organization.created'' then
           and_then updated (\<lambda>tu. Inl TypeError)
         else if ty = JStr ''organization.updated'' then
           and_then updated (\<lambda>tu. Inr (update_owners d tu, ''Error updating owner:'', ''data''))
         else if ty = JStr ''organizationMembership.created'' then
           and_then created (\<lambda>tc. and_then updated (\<lambda>tu.
             Inr (insert_members d tc tu, ''Error updating member:'', ''data'')))
         else if ty = JStr ''organizationMembership.updated'' then
           and_then updated (\<lambda>tu. Inr (update_members d tu, ''Error updating member:'', ''data''))
         else Inl TypeError)"

text \<open>What the branch does with the routed call.\<close>

definition finish :: "world \<Rightarrow> js_error + (store_call \<times> string \<times> string) \<Rightarrow> run" where
  "finish w x = (case x of Inl e \<Rightarrow> throws [] e | Inr (c, l, k) \<Rightarrow> await_store w c l k)"

text \<open>
  The identifier a call is keyed by: the value its \<^verbatim>\<open>.eq('id', v)\<close> matches, and for a
  call with no filter the \<^verbatim>\<open>id\<close> of the row it writes.
\<close>

definition call_key :: "store_call \<Rightarrow> jsval option" where
  "call_key c =
     (case eq_filter c of
        None \<Rightarrow> map_of (vals c) ''id''
      | Some (col, v) \<Rightarrow> if col = ''id'' then Some v else None)"

text \<open>The timestamps of the event data that the branch of a type converts.\<close>

definition converted :: "jsval \<Rightarrow> string list" where
  "converted ty =
     (if ty = JStr ''user.created'' \<or> ty = JStr ''organizationMembership.created''
      then [''created_at'', ''updated_at''] else [''updated_at''])"

text \<open>
  The payloads on which the switch does not throw: not \<^verbatim>\<open>null\<close>, and for a recognized
  type the type is not \<^verbatim>\<open>organization.created\<close> (whose branch ends in the call of
  \<^verbatim>\<open>create\<close>), the data is not \<^verbatim>\<open>null\<close> or absent and every timestamp the branch converts
  is a valid date.
\<close>

definition readable :: "world \<Rightarrow> jsval \<Rightarrow> bool" where
  "readable w event =
     (\<not> nullish event
      \<and> (peek event ''type'' \<in> set recognized \<longrightarrow>
           peek event ''type'' \<noteq> JStr ''organization.created''
           \<and> \<not> nullish (peek event ''data'')
           \<and> list_all (\<lambda>k. new_Date w (peek (peek event ''data'') k) \<noteq> None)
                (converted (peek event ''type''))))"

text \<open>
  The requests to which the handler itself returns a response: one of the first two
  checks fails, or the body is JSON and either a credential is missing or the payload is
  readable.
\<close>

definition answered :: "world \<Rightarrow> request \<Rightarrow> bool" where
  "answered w req =
     (js_not (env_get w ''CLERK_WEBHOOK_SECRET'') \<or> \<not> signed req
      \<or> (case json req of
            None \<Rightarrow> False
          | Some event \<Rightarrow>
              js_not (env_get w ''SUPABASE_URL'') \<or> js_not (env_get w ''SUPABASE_SERVICE_ROLE_KEY'')
              \<or> readable w event))"

text \<open>
  The requests that reach the \<^verbatim>\<open>organization.created\<close> case of the switch: every check
  passes and the payload has that type.
\<close>

definition reaches_create :: "world \<Rightarrow> request \<Rightarrow> bool" where
  "reaches_create w req =
     (configured w \<and> signed req
      \<and> (case json req of
            None \<Rightarrow> False
          | Some event \<Rightarrow> peek event ''type'' = JStr ''organization.created''))"

subsection \<open>Example worlds and requests\<close>

text \<open>
  A world with every variable set, whose store answers each call with the values it was
  given, and one whose store refuses every call.
\<close>

definition echo_world :: world where
  "echo_world =
     \<lparr>env_get = (\<lambda>k. Some ''set''), store = (\<lambda>c. Succeeded (JObj (vals c))),
      date_parse = (\<lambda>v. None)\<rparr>"

definition failing_world :: world where
  "failing_world =
     \<lparr>env_get = (\<lambda>k. Some ''set''), store = (\<lambda>c. Failed ''duplicate key''),
      date_parse = (\<lambda>v. None)\<rparr>"

text \<open>A world in which only the webhook secret is set.\<close>

definition secret_only_world :: world where
  "secret_only_world =
     \<lparr>env_get = (\<lambda>k. if k = ''CLERK_WEBHOOK_SECRET'' then Some ''whsec'' else None),
      store = (\<lambda>c. Succeeded JNull), date_parse = (\<lambda>v. None)\<rparr>"

text \<open>A world in which nothing is set.\<close>

definition empty_world :: world where
  "empty_world =
     \<lparr>env_get = (\<lambda>k. None), store = (\<lambda>c. Succeeded JNull), date_parse = (\<lambda>v. None)\<rparr>"

text \<open>A request with the three headers and the given body; one with no header at all.\<close>

definition signed_request :: "jsval option \<Rightarrow> request" where
  "signed_request b = \<lparr>header_get = (\<lambda>k. Some ''h''), json = b\<rparr>"

definition bare_request :: "jsval option \<Rightarrow> request" where
  "bare_request b = \<lparr>header_get = (\<lambda>k. None), json = b\<rparr>"

definition event_of :: "string \<Rightarrow> (string \<times> jsval) list \<Rightarrow> jsval" where
  "event_of ty d = JObj [(''data'', JObj d), (''object'', JStr ''event''), (''type'', JStr ty)]"

section \<open>Auxiliary facts\<close>

subsection \<open>The year of a time value\<close>

text \<open>
  The year computed from the estimate is the year of the standard: its first day is not
  after the day, the first day of the next year is, and no later year starts on or before
  the time value.
\<close>

lemma quot_lower: "0 < k \<Longrightarrow> k * (a div k) \<le> (a::int)"
  using pos_mod_sign [of k a] mult_div_mod_eq [of k a] by linarith

lemma quot_upper: "0 < k \<Longrightarrow> (a::int) < k * (a div k) + k"
  using pos_mod_bound [of k a] mult_div_mod_eq [of k a] by linarith

lemma year_upper_linear:
  fixes x z a b c :: int
  assumes "400 * z < 146097 * x + 146097"
    and "x + 3 < 4 * a + 4" and "100 * b \<le> x + 71" and "x + 371 < 400 * c + 400"
  shows "z < 365 * (x + 2) + a - b + c"
proof -
  have 1: "100 * x \<le> 400 * a"
    using assms(2) by linarith
  have 2: "400 * b \<le> 4 * x + 284"
    using assms(3) by linarith
  have 3: "x \<le> 400 * c + 28"
    using assms(4) by linarith
  have "400 * z < 146000 * x + 292000 + 400 * a - 400 * b + 400 * c"
    using assms(1) 1 2 3 by linarith
  also have "\<dots> = 400 * (365 * (x + 2) + a - b + c)"
    by (simp add: algebra_simps)
  finally show ?thesis
    by simp
qed

lemma year_lower_linear:
  fixes x z a b c :: int
  assumes "146097 * x \<le> 400 * z"
    and "4 * a \<le> x" and "x + 68 < 100 * b + 100" and "400 * c \<le> x + 368"
  shows "365 * (x - 1) + a - b + c \<le> z"
proof -
  have 1: "400 * a \<le> 100 * x"
    using assms(2) by linarith
  have 2: "4 * x \<le> 400 * b + 124"
    using assms(3) by linarith
  have "400 * (365 * (x - 1) + a - b + c) = 146000 * x - 146000 + 400 * a - 400 * b + 400 * c"
    by (simp add: algebra_simps)
  also have "\<dots> \<le> 400 * z"
    using assms(1,4) 1 2 by linarith
  finally show ?thesis
    by simp
qed

lemma day_from_year_offset:
  "day_from_year (1970 + x + k) =
     365 * (x + k) + (x + k + 1) div 4 - (x + k + 69) div 100 + (x + k + 369) div 400"
proof -
  have "1970 + x + k - 1970 = x + k" "1970 + x + k - 1969 = x + k + 1"
    "1970 + x + k - 1901 = x + k + 69" "1970 + x + k - 1601 = x + k + 369"
    by simp_all
  then show ?thesis
    unfolding day_from_year_def by (simp only:)
qed

lemma year_upper:
  fixes x z :: int
  assumes "400 * z < 146097 * x + 146097"
  shows "z < day_from_year (1970 + x + 2)"
proof -
  have "x + 3 < 4 * ((x + 3) div 4) + 4"
    by (rule quot_upper) simp
  moreover have "100 * ((x + 71) div 100) \<le> x + 71"
    by (rule quot_lower) simp
  moreover have "x + 371 < 400 * ((x + 371) div 400) + 400"
    by (rule quot_upper) simp
  ultimately have "z < 365 * (x + 2) + (x + 3) div 4 - (x + 71) div 100 + (x + 371) div 400"
    by (rule year_upper_linear [OF assms])
  moreover have "x + 2 + 1 = x + 3" "x + 2 + 69 = x + 71" "x + 2 + 369 = x + 371"
    by simp_all
  ultimately show ?thesis
    unfolding day_from_year_offset by (simp only:)
qed

lemma year_lower:
  fixes x z :: int
  assumes "146097 * x \<le> 400 * z"
  shows "day_from_year (1970 + x + (- 1)) \<le> z"
proof -
  have "4 * (x div 4) \<le> x"
    by (rule quot_lower) simp
  moreover have "x + 68 < 100 * ((x + 68) div 100) + 100"
    by (rule quot_upper) simp
  moreover have "400 * ((x + 368) div 400) \<le> x + 368"
    by (rule quot_lower) simp
  ultimately have "365 * (x - 1) + x div 4 - (x + 68) div 100 + (x + 368) div 400 \<le> z"
    by (rule year_lower_linear [OF assms])
  moreover have "x + (- 1) + 1 = x" "x + (- 1) + 69 = x + 68" "x + (- 1) + 369 = x + 368"
    "x + (- 1) = x - 1"
    by simp_all
  ultimately show ?thesis
    unfolding day_from_year_offset by (simp only:)
qed

lemma year_from_day_bounds:
  "day_from_year (year_from_day z) \<le> z \<and> z < day_from_year (year_from_day z + 1)"
proof -
  define x where "x = (400 * z) div 146097"
  define y where "y = 1970 + x"
  have l: "146097 * x \<le> 400 * z"
    unfolding x_def by (rule quot_lower) simp
  have u: "400 * z < 146097 * x + 146097"
    unfolding x_def by (rule quot_upper) simp
  have e: "1970 + x + (- 1) = y - 1" "1970 + x + 2 = y + 1 + 1"
    unfolding y_def by simp_all
  have lo: "day_from_year (y - 1) \<le> z"
    using year_lower [OF l] by (simp only: e)
  have up: "z < day_from_year (y + 1 + 1)"
    using year_upper [OF u] by (simp only: e)
  have r: "year_from_day z =
      (if day_from_year (y + 1) \<le> z then y + 1
       else if day_from_year y \<le> z then y else y - 1)"
    unfolding year_from_day_def Let_def y_def x_def ..
  show ?thesis
  proof (cases "day_from_year (y + 1) \<le> z")
    case True
    with r have "year_from_day z = y + 1"
      by simp
    with True up show ?thesis
      by simp
  next
    case False
    show ?thesis
    proof (cases "day_from_year y \<le> z")
      case True
      with False r have "year_from_day z = y"
        by simp
      with True False show ?thesis
        by simp
    next
      case n: False
      with False r have "year_from_day z = y - 1"
        by simp
      with n lo show ?thesis
        by simp
    qed
  qed
qed

lemma quot_step:
  fixes a k :: int
  assumes "0 < k"
  shows "a div k \<le> (a + 1) div k" and "(a + 1) div k \<le> a div k + 1"
proof -
  show "a div k \<le> (a + 1) div k"
    by (rule zdiv_mono1) (use assms in simp_all)
  have "(a + 1) div k \<le> (a + k) div k"
    by (rule zdiv_mono1) (use assms in simp_all)
  also have "(a + k) div k = a div k + 1"
    using assms by (intro div_add_self2) simp
  finally show "(a + 1) div k \<le> a div k + 1" .
qed

lemma day_from_year_less_Suc: "day_from_year y < day_from_year (y + 1)"
proof -
  have e: "y + 1 - 1970 = y - 1970 + 1" "y + 1 - 1969 = y - 1969 + 1"
    "y + 1 - 1901 = y - 1901 + 1" "y + 1 - 1601 = y - 1601 + 1"
    by simp_all
  have "(y - 1969) div 4 \<le> (y - 1969 + 1) div 4"
    by (rule quot_step) simp
  moreover have "(y - 1901 + 1) div 100 \<le> (y - 1901) div 100 + 1"
    by (rule quot_step) simp
  moreover have "(y - 1601) div 400 \<le> (y - 1601 + 1) div 400"
    by (rule quot_step) simp
  ultimately have "365 * (y - 1970) + (y - 1969) div 4 - (y - 1901) div 100 + (y - 1601) div 400
      < 365 * (y - 1970 + 1) + (y - 1969 + 1) div 4 - (y - 1901 + 1) div 100
        + (y - 1601 + 1) div 400"
    by (simp only: distrib_left)
  then show ?thesis
    unfolding day_from_year_def e .
qed

lemma day_from_year_mono:
  assumes "y \<le> y'"
  shows "day_from_year y \<le> day_from_year y'"
proof -
  have "day_from_year y \<le> day_from_year (y + int n)" for n
  proof (induction n)
    case 0
    then show ?case by simp
  next
    case (Suc n)
    have "day_from_year (y + int n) < day_from_year (y + int n + 1)"
      by (rule day_from_year_less_Suc)
    moreover have "y + int (Suc n) = y + int n + 1"
      by simp
    ultimately show ?case
      using Suc by (simp only:)
  qed
  from this [of "nat (y' - y)"] assms show ?thesis
    by simp
qed

lemma year_from_day_largest:
  assumes "day_from_year y \<le> z"
  shows "y \<le> year_from_day z"
proof (rule ccontr)
  assume "\<not> y \<le> year_from_day z"
  then have "year_from_day z + 1 \<le> y"
    by simp
  then have "day_from_year (year_from_day z + 1) \<le> day_from_year y"
    by (rule day_from_year_mono)
  with assms year_from_day_bounds [of z] show False
    by linarith
qed

lemma floor_quot_iff:
  fixes a k t :: int
  assumes "0 < k"
  shows "k * a \<le> t \<longleftrightarrow> a \<le> t div k"
proof
  assume "k * a \<le> t"
  then have "(k * a) div k \<le> t div k"
    using assms by (intro zdiv_mono1) simp_all
  moreover have "(k * a) div k = a"
    using assms by simp
  ultimately show "a \<le> t div k"
    by simp
next
  assume "a \<le> t div k"
  then have "k * a \<le> k * (t div k)"
    using assms by (intro mult_left_mono) simp_all
  also have "\<dots> \<le> t"
    using assms by (rule quot_lower)
  finally show "k * a \<le> t" .
qed

lemma year_from_time_largest:
  "ms_per_day * day_from_year y \<le> t \<longleftrightarrow> y \<le> year_from_time t"
proof -
  have "ms_per_day * day_from_year y \<le> t \<longleftrightarrow> day_from_year y \<le> day t"
    unfolding day_def by (rule floor_quot_iff) (simp add: ms_per_day_def)
  also have "\<dots> \<longleftrightarrow> y \<le> year_from_time t"
  proof
    assume "day_from_year y \<le> day t"
    then show "y \<le> year_from_time t"
      unfolding year_from_time_def by (rule year_from_day_largest)
  next
    assume "y \<le> year_from_time t"
    then have "day_from_year y \<le> day_from_year (year_from_day (day t))"
      unfolding year_from_time_def by (rule day_from_year_mono)
    also have "\<dots> \<le> day t"
      using year_from_day_bounds [of "day t"] by (rule conjunct1)
    finally show "day_from_year y \<le> day t" .
  qed
  finally show ?thesis .
qed

lemma iso_string_epoch: "iso_string 0 = ''1970-01-01T00:00:00.000Z''"
  by code_simp

text \<open>
  The ISO string at some time values: a time of day, the last millisecond before the
  epoch, leap days, a century year that is not a leap year, the years 0 and -1, the
  first year of five digits and the two ends of the range of time values.
\<close>

lemma iso_string_examples:
  "iso_string 1700000000000 = ''2023-11-14T22:13:20.000Z''"
  "iso_string (- 1) = ''1969-12-31T23:59:59.999Z''"
  "iso_string 951782400000 = ''2000-02-29T00:00:00.000Z''"
  "iso_string 1709251199999 = ''2024-02-29T23:59:59.999Z''"
  "iso_string (- 2203891200000) = ''1900-03-01T00:00:00.000Z''"
  "iso_string (- 62167219200000) = ''0000-01-01T00:00:00.000Z''"
  "iso_string (- 62167219200001) = ''-000001-12-31T23:59:59.999Z''"
  "iso_string 253402300800000 = ''+010000-01-01T00:00:00.000Z''"
  "iso_string 8640000000000000 = ''+275760-09-13T00:00:00.000Z''"
  "iso_string (- 8640000000000000) = ''-271821-04-20T00:00:00.000Z''"
  by code_simp+

subsection \<open>The switch and the handler\<close>

lemma store_calls_append: "store_calls (xs @ ys) = store_calls xs @ store_calls ys"
  by (induction xs rule: store_calls.induct) simp_all

lemma store_calls_prelude: "store_calls prelude = []"
  by (simp add: prelude_def)

lemma handler_reaches_switch:
  assumes "configured w" and "signed req" and "json req = Some payload"
  shows "handler w req = after prelude (dispatch w payload)"
  using assms by (simp add: handler_def configured_def signed_def prelude_def)

lemma get_prop_peek: "\<not> nullish d \<Longrightarrow> get_prop d k = Inr (peek d k)"
  by (cases d) (simp_all add: nullish_def field_def)

lemma get_prop_nullish: "nullish d \<Longrightarrow> get_prop d k = Inl TypeError"
  by (auto simp: nullish_def)

lemma opt_chain_peek: "opt_chain v k = Inr (peek v k)"
  by (cases v) (simp_all add: field_def)

lemma data_prop_peek:
  "get_prop event ''data'' = Inr d \<Longrightarrow> \<not> nullish d \<Longrightarrow> data_prop event k = Inr (peek d k)"
  by (simp add: data_prop_def get_prop_peek)

lemma data_opt_peek:
  "get_prop event ''data'' = Inr d \<Longrightarrow> \<not> nullish d
   \<Longrightarrow> data_opt event n k = Inr (peek (peek d n) k)"
  by (simp add: data_opt_def data_prop_peek opt_chain_peek)

lemma data_iso_peek:
  "get_prop event ''data'' = Inr d \<Longrightarrow> \<not> nullish d
   \<Longrightarrow> data_iso w event k = toISOString (new_Date w (peek d k))"
  by (simp add: data_iso_def data_prop_peek)

lemma data_prop_nullish:
  "get_prop event ''data'' = Inr d \<Longrightarrow> nullish d \<Longrightarrow> data_prop event k = Inl TypeError"
  by (simp add: data_prop_def get_prop_nullish)

lemmas branch_defs = user_created_def user_updated_def organization_created_def
  organization_updated_def membership_created_def membership_updated_def

lemmas call_defs = insert_users_def update_users_def update_owners_def insert_members_def
  update_members_def

lemma branches_explicit:
  assumes "get_prop event ''data'' = Inr d" and "\<not> nullish d"
  shows "user_created w event = finish w (routed w (JStr ''user.created'') d)"
    and "user_updated w event = finish w (routed w (JStr ''user.updated'') d)"
    and "organization_created w event = finish w (routed w (JStr ''organization.created'') d)"
    and "organization_updated w event = finish w (routed w (JStr ''organization.updated'') d)"
    and "membership_created w event = finish w (routed w (JStr ''organizationMembership.created'') d)"
    and "membership_updated w event = finish w (routed w (JStr ''organizationMembership.updated'') d)"
  using assms
  by (cases "new_Date w (peek d ''created_at'')"; cases "new_Date w (peek d ''updated_at'')";
      simp add: branch_defs call_defs routed_def finish_def date_value_def builder_call_def
        query_builder_methods_def throws_def data_prop_peek data_iso_peek data_opt_peek)+

lemma branches_data_nullish:
  assumes "get_prop event ''data'' = Inr d" and "nullish d"
  shows "user_created w event = throws [] TypeError"
    and "user_updated w event = throws [] TypeError"
    and "organization_created w event = throws [] TypeError"
    and "organization_updated w event = throws [] TypeError"
    and "membership_created w event = throws [] TypeError"
    and "membership_updated w event = throws [] TypeError"
  using assms
  by (simp_all add: branch_defs data_prop_nullish data_opt_def)

lemma dispatch_nullish: "nullish event \<Longrightarrow> dispatch w event = throws [] TypeError"
  by (simp add: dispatch_def get_prop_nullish)

lemma dispatch_unrecognized:
  assumes "\<not> nullish event" and "peek event ''type'' \<notin> set recognized"
  shows "dispatch w event = returns [ConsoleLog ''Unhandled event type:'' event]
            \<lparr>status = 200, body = Json (JObj [(''success'', JBool True)])\<rparr>"
  using assms by (simp add: dispatch_def get_prop_peek recognized_def)

lemma dispatch_data_nullish:
  assumes "\<not> nullish event" and "peek event ''type'' \<in> set recognized"
    and "nullish (peek event ''data'')"
  shows "dispatch w event = throws [] TypeError"
proof -
  have d: "get_prop event ''data'' = Inr (peek event ''data'')"
    using assms(1) by (rule get_prop_peek)
  show ?thesis
    using assms(1,2) branches_data_nullish [OF d assms(3), of w]
    by (auto simp add: dispatch_def get_prop_peek recognized_def)
qed

lemma dispatch_recognized:
  assumes "\<not> nullish event" and "peek event ''type'' \<in> set recognized"
    and "\<not> nullish (peek event ''data'')"
  shows "dispatch w event = finish w (routed w (peek event ''type'') (peek event ''data''))"
proof -
  have d: "get_prop event ''data'' = Inr (peek event ''data'')"
    using assms(1) by (rule get_prop_peek)
  show ?thesis
    using assms(1,2) branches_explicit [OF d assms(3), of w]
    by (auto simp add: dispatch_def get_prop_peek recognized_def)
qed

lemma await_store_calls: "store_calls (trace (await_store w c l k)) = [c]"
  by (simp add: await_store_def returns_def split: store_result.splits)

lemma await_store_member:
  "StoreCall c' \<in> set (trace (await_store w c l k)) \<longleftrightarrow> c' = c"
  by (auto simp add: await_store_def returns_def split: store_result.splits)

lemma await_store_outcome:
  "outcome (await_store w c l k) =
     (case store w c of
        Failed msg \<Rightarrow> Inr \<lparr>status = 500, body = Json (JObj [(''error'', JStr msg)])\<rparr>
      | Succeeded row \<Rightarrow> Inr \<lparr>status = 200, body = Json (JObj [(k, row)])\<rparr>)"
  by (simp add: await_store_def returns_def split: store_result.splits)

lemma handler_call_reaches_switch:
  assumes "StoreCall c \<in> set (trace (handler w req))"
  shows "configured w \<and> signed req
       \<and> (\<exists>event. json req = Some event \<and> StoreCall c \<in> set (trace (dispatch w event)))"
  using assms
  by (auto simp add: handler_def Let_def configured_def signed_def returns_def throws_def
      after_def split: if_splits option.splits)

lemma dispatch_call:
  assumes "StoreCall c \<in> set (trace (dispatch w event))"
  shows "\<not> nullish event \<and> peek event ''type'' \<in> set recognized \<and> \<not> nullish (peek event ''data'')
       \<and> (\<exists>l k. routed w (peek event ''type'') (peek event ''data'') = Inr (c, l, k)
                \<and> dispatch w event = await_store w c l k)"
proof -
  have 1: "\<not> nullish event"
    using assms by (auto simp add: dispatch_nullish throws_def)
  have 2: "peek event ''type'' \<in> set recognized"
  proof (rule ccontr)
    assume "peek event ''type'' \<notin> set recognized"
    with 1 assms show False
      by (simp add: dispatch_unrecognized returns_def)
  qed
  have 3: "\<not> nullish (peek event ''data'')"
  proof
    assume "nullish (peek event ''data'')"
    with 1 2 assms show False
      by (simp add: dispatch_data_nullish throws_def)
  qed
  have 4: "dispatch w event = finish w (routed w (peek event ''type'') (peek event ''data''))"
    using 1 2 3 by (rule dispatch_recognized)
  from assms 4 obtain l k where
    "routed w (peek event ''type'') (peek event ''data'') = Inr (c, l, k)"
    by (auto simp add: finish_def throws_def await_store_member split: sum.splits)
  with 1 2 3 4 show ?thesis
    by (simp add: finish_def)
qed

lemma issued_call:
  assumes "StoreCall c \<in> set (trace (handler w req))"
  obtains event l k where "configured w" and "signed req" and "json req = Some event"
    and "\<not> nullish event" and "\<not> nullish (peek event ''data'')"
    and "routed w (peek event ''type'') (peek event ''data'') = Inr (c, l, k)"
    and "handler w req = after prelude (await_store w c l k)"
proof -
  from handler_call_reaches_switch [OF assms] obtain event where
    h: "configured w" "signed req" "json req = Some event"
    and d: "StoreCall c \<in> set (trace (dispatch w event))"
    by blast
  from dispatch_call [OF d] obtain l k where
    r: "\<not> nullish event" "\<not> nullish (peek event ''data'')"
       "routed w (peek event ''type'') (peek event ''data'') = Inr (c, l, k)"
       "dispatch w event = await_store w c l k"
    by blast
  have "handler w req = after prelude (await_store w c l k)"
    using handler_reaches_switch [OF h] r(4) by simp
  with h r that show thesis
    by blast
qed

lemma routed_key: "routed w ty d = Inr (c, l, k) \<Longrightarrow> k = ''user'' \<or> k = ''data''"
  by (cases "new_Date w (peek d ''created_at'')"; cases "new_Date w (peek d ''updated_at'')";
      auto simp add: routed_def Let_def date_value_def split: if_splits)

lemma routed_id:
  "routed w ty d = Inr (c, l, k) \<Longrightarrow> call_key c = Some (peek d ''id'')"
  by (cases "new_Date w (peek d ''created_at'')"; cases "new_Date w (peek d ''updated_at'')";
      auto simp add: routed_def Let_def date_value_def call_key_def call_defs split: if_splits)

lemma routed_verb:
  "routed w ty d = Inr (c, l, k) \<Longrightarrow> verb c \<in> {''insert'', ''update'', ''create''}"
  by (cases "new_Date w (peek d ''created_at'')"; cases "new_Date w (peek d ''updated_at'')";
      auto simp add: routed_def Let_def date_value_def call_defs split: if_splits)

lemma routed_members:
  "routed w ty d = Inr (c, l, k) \<Longrightarrow> table c = ''members''
   \<Longrightarrow> map_of (vals c) ''user_id'' = Some (peek (peek d ''public_user_data'') ''user_id'')
     \<and> map_of (vals c) ''organization_id'' = Some (peek (peek d ''organization'') ''id'')"
  by (cases "new_Date w (peek d ''created_at'')"; cases "new_Date w (peek d ''updated_at'')";
      auto simp add: routed_def Let_def date_value_def call_defs split: if_splits)

lemma routed_updated_at:
  "routed w ty d = Inr (c, l, k) \<Longrightarrow>
   \<exists>t. new_Date w (peek d ''updated_at'') = Some t
      \<and> map_of (vals c) ''updated_at'' = Some (JStr (iso_string t))"
  by (cases "new_Date w (peek d ''created_at'')"; cases "new_Date w (peek d ''updated_at'')";
      auto simp add: routed_def Let_def date_value_def call_defs split: if_splits)

lemma routed_created_at:
  "routed w ty d = Inr (c, l, k) \<Longrightarrow> map_of (vals c) ''created_at'' = Some v \<Longrightarrow>
   \<exists>t. new_Date w (peek d ''created_at'') = Some t \<and> v = JStr (iso_string t)"
  by (cases "new_Date w (peek d ''created_at'')"; cases "new_Date w (peek d ''updated_at'')";
      auto simp add: routed_def Let_def date_value_def call_defs split: if_splits)

lemma trace_after: "trace (after t r) = t @ trace r"
  by (simp add: after_def)

lemma outcome_after: "outcome (after t r) = outcome r"
  by (simp add: after_def)

lemma worlds_configured: "configured echo_world" "configured failing_world"
  by (simp_all add: configured_def echo_world_def failing_world_def)

lemma signed_request_signed: "signed (signed_request b)" "json (signed_request b) = b"
  by (simp_all add: signed_def signed_request_def)

lemma routed_simps:
  "routed w (JStr ''user.created'') d =
     and_then (date_value (new_Date w (peek d ''created_at''))) (\<lambda>tc.
       and_then (date_value (new_Date w (peek d ''updated_at''))) (\<lambda>tu.
         Inr (insert_users d tc tu, ''Error creating user:'', ''user'')))"
  "routed w (JStr ''user.updated'') d =
     and_then (date_value (new_Date w (peek d ''updated_at''))) (\<lambda>tu.
       Inr (update_users d tu, ''Error updating user:'', ''user''))"
  "routed w (JStr ''organization.created'') d =
     and_then (date_value (new_Date w (peek d ''updated_at''))) (\<lambda>tu. Inl TypeError)"
  "routed w (JStr ''organization.updated'') d =
     and_then (date_value (new_Date w (peek d ''updated_at''))) (\<lambda>tu.
       Inr (update_owners d tu, ''Error updating owner:'', ''data''))"
  "routed w (JStr ''organizationMembership.created'') d =
     and_then (date_value (new_Date w (peek d ''created_at''))) (\<lambda>tc.
       and_then (date_value (new_Date w (peek d ''updated_at''))) (\<lambda>tu.
         Inr (insert_members d tc tu, ''Error updating member:'', ''data'')))"
  "routed w (JStr ''organizationMembership.updated'') d =
     and_then (date_value (new_Date w (peek d ''updated_at''))) (\<lambda>tu.
       Inr (update_members d tu, ''Error updating member:'', ''data''))"
  by (simp_all add: routed_def)

lemma converted_simps:
  "converted (JStr ''user.created'') = [''created_at'', ''updated_at'']"
  "converted (JStr ''user.updated'') = [''updated_at'']"
  "converted (JStr ''organization.created'') = [''updated_at'']"
  "converted (JStr ''organization.updated'') = [''updated_at'']"
  "converted (JStr ''organizationMembership.created'') = [''created_at'', ''updated_at'']"
  "converted (JStr ''organizationMembership.updated'') = [''updated_at'']"
  by (simp_all add: converted_def)

lemma routed_Inr_iff:
  assumes "ty \<in> set recognized"
  shows "(\<exists>x. routed w ty d = Inr x)
       = (ty \<noteq> JStr ''organization.created''
          \<and> list_all (\<lambda>k. new_Date w (peek d k) \<noteq> None) (converted ty))"
proof -
  from assms have "ty = JStr ''user.created'' \<or> ty = JStr ''user.updated''
      \<or> ty = JStr ''organization.created'' \<or> ty = JStr ''organization.updated''
      \<or> ty = JStr ''organizationMembership.created''
      \<or> ty = JStr ''organizationMembership.updated''"
    by (simp add: recognized_def)
  then show ?thesis
    by (elim disjE; cases "new_Date w (peek d ''created_at'')";
        cases "new_Date w (peek d ''updated_at'')";
        simp add: routed_simps converted_simps date_value_def)
qed

lemma outcome_finish:
  "(\<exists>r. outcome (finish w x) = Inr r) = (\<exists>y. x = Inr y)"
  by (cases x) (auto simp add: finish_def throws_def await_store_outcome split: store_result.splits)

lemma dispatch_returns_iff:
  "(\<exists>r. outcome (dispatch w event) = Inr r) = readable w event"
proof (cases "nullish event")
  case True
  then show ?thesis
    by (simp add: dispatch_nullish throws_def readable_def)
next
  case n: False
  show ?thesis
  proof (cases "peek event ''type'' \<in> set recognized")
    case False
    with n show ?thesis
      by (simp add: dispatch_unrecognized returns_def readable_def)
  next
    case t: True
    show ?thesis
    proof (cases "nullish (peek event ''data'')")
      case True
      with n t show ?thesis
        by (simp add: dispatch_data_nullish throws_def readable_def)
    next
      case False
      with n t have "dispatch w event
          = finish w (routed w (peek event ''type'') (peek event ''data''))"
        by (simp add: dispatch_recognized)
      then have "(\<exists>r. outcome (dispatch w event) = Inr r)
          = (\<exists>y. routed w (peek event ''type'') (peek event ''data'') = Inr y)"
        by (simp only: outcome_finish)
      also have "\<dots> = (peek event ''type'' \<noteq> JStr ''organization.created''
          \<and> list_all (\<lambda>k. new_Date w (peek (peek event ''data'') k) \<noteq> None)
                (converted (peek event ''type'')))"
        using t by (rule routed_Inr_iff)
      also have "\<dots> = readable w event"
        using n t False by (simp add: readable_def)
      finally show ?thesis .
    qed
  qed
qed

lemma data_prop_Inr:
  assumes "data_prop event k = Inr v"
  shows "\<not> nullish event" and "\<not> nullish (peek event ''data'')"
    and "peek (peek event ''data'') k = v"
proof -
  show 1: "\<not> nullish event"
    using assms by (auto simp add: data_prop_def get_prop_nullish)
  then have d: "get_prop event ''data'' = Inr (peek event ''data'')"
    by (rule get_prop_peek)
  show 2: "\<not> nullish (peek event ''data'')"
    using assms d by (auto simp add: data_prop_def get_prop_nullish)
  show "peek (peek event ''data'') k = v"
    using assms data_prop_peek [OF d 2, of k] by simp
qed

lemma new_Date_num: "new_Date w (JNum n) = Some t \<Longrightarrow> t = n"
  by (simp add: time_clip_def split: if_splits)

lemma handler_routed:
  assumes "configured w" and "signed req" and "json req = Some event"
    and "\<not> nullish event" and "peek event ''type'' \<in> set recognized"
    and "\<not> nullish (peek event ''data'')"
    and "routed w (peek event ''type'') (peek event ''data'') = Inr (c, l, k)"
  shows "handler w req = after prelude (await_store w c l k)"
  using handler_reaches_switch [OF assms(1,2,3)] dispatch_recognized [OF assms(4,5,6), of w]
    assms(7)
  by (simp add: finish_def)

lemma store_calls_awaited:
  "store_calls (trace (after prelude (await_store w c l k))) = [c]"
  by (simp add: trace_after store_calls_append store_calls_prelude await_store_calls)

subsection \<open>The two organization events\<close>

text \<open>
  An \<^verbatim>\<open>organization.updated\<close> event whose data is an object with a valid \<^verbatim>\<open>updated_at\<close> has
  one call issued, the update of the table \<^verbatim>\<open>owners\<close> that matches \<^verbatim>\<open>id = data.id\<close> and
  writes \<^verbatim>\<open>name\<close> and \<^verbatim>\<open>updated_at\<close>.
\<close>

lemma organization_updated_targets_owners:
  assumes "configured w" and "signed req" and "json req = Some (JObj ev)"
    and "map_of ev ''type'' = Some (JStr ''organization.updated'')"
    and "map_of ev ''data'' = Some (JObj d)"
    and "new_Date w (field d ''updated_at'') = Some t"
  shows "store_calls (trace (handler w req))
           = [\<lparr>table = ''owners'', verb = ''update'',
               vals = [(''name'', field d ''name''), (''updated_at'', JStr (iso_string t))],
               eq_filter = Some (''id'', field d ''id'')\<rparr>]"
proof -
  have n: "\<not> nullish (JObj ev)"
    by (simp add: nullish_def)
  have ty: "peek (JObj ev) ''type'' = JStr ''organization.updated''"
    using assms(4) by (simp add: field_def)
  have rec: "peek (JObj ev) ''type'' \<in> set recognized"
    unfolding ty by (simp add: recognized_def)
  have d: "peek (JObj ev) ''data'' = JObj d"
    using assms(5) by (simp add: field_def)
  have nd: "\<not> nullish (peek (JObj ev) ''data'')"
    unfolding d by (simp add: nullish_def)
  have r: "routed w (peek (JObj ev) ''type'') (peek (JObj ev) ''data'')
      = Inr (update_owners (JObj d) t, ''Error updating owner:'', ''data'')"
    unfolding ty d using assms(6) by (simp add: routed_def date_value_def)
  have "handler w req
      = after prelude (await_store w (update_owners (JObj d) t) ''Error updating owner:'' ''data'')"
    using assms(1,2,3) n rec nd r by (rule handler_routed)
  then have "store_calls (trace (handler w req)) = [update_owners (JObj d) t]"
    by (simp only: store_calls_awaited)
  then show ?thesis
    by (simp add: update_owners_def)
qed

text \<open>
  An \<^verbatim>\<open>organization.created\<close> event never has a call issued, and the handler returns no
  response to it: once every check has passed, the branch throws.
\<close>

lemma organization_created_throws:
  assumes "configured w" and "signed req" and "json req = Some event"
    and "peek event ''type'' = JStr ''organization.created''"
  shows "store_calls (trace (handler w req)) = [] \<and> (\<exists>e. outcome (handler w req) = Inl e)"
proof -
  have n: "\<not> nullish event"
    using assms(4) by (auto simp add: nullish_def)
  have rec: "peek event ''type'' \<in> set recognized"
    unfolding assms(4) by (simp add: recognized_def)
  have h: "handler w req = after prelude (dispatch w event)"
    using assms(1,2,3) by (rule handler_reaches_switch)
  have "\<exists>e. dispatch w event = throws [] e"
  proof (cases "nullish (peek event ''data'')")
    case True
    with n rec have "dispatch w event = throws [] TypeError"
      by (rule dispatch_data_nullish)
    then show ?thesis
      by blast
  next
    case False
    with n rec have "dispatch w event
        = finish w (routed w (peek event ''type'') (peek event ''data''))"
      by (rule dispatch_recognized)
    then have f: "dispatch w event
        = finish w (routed w (JStr ''organization.created'') (peek event ''data''))"
      by (simp only: assms(4))
    show ?thesis
    proof (cases "new_Date w (peek (peek event ''data'') ''updated_at'')")
      case None
      then have "dispatch w event = throws [] RangeError"
        by (simp add: f routed_simps date_value_def finish_def)
      then show ?thesis
        by blast
    next
      case (Some t)
      then have "dispatch w event = throws [] TypeError"
        by (simp add: f routed_simps date_value_def finish_def)
      then show ?thesis
        by blast
    qed
  qed
  then obtain e where "dispatch w event = throws [] e"
    by blast
  then show ?thesis
    by (simp add: h trace_after outcome_after throws_def store_calls_append store_calls_prelude)
qed

section \<open>Properties\<close>

text \<open>
  C7. When the webhook secret is unset, the response is 500 with the text
  "Webhook secret not configured", whatever the headers and the body of the request:
  two requests get the same run, and the only effect of that run is the read of the
  secret, so neither a header nor the body is looked at.
\<close>

theorem secret_unset_same_response:
  assumes "env_get w ''CLERK_WEBHOOK_SECRET'' = None"
  shows "handler w req1 = handler w req2
       \<and> outcome (handler w req1)
           = Inr \<lparr>status = 500, body = Text ''Webhook secret not configured''\<rparr>
       \<and> trace (handler w req1) = [EnvGet ''CLERK_WEBHOOK_SECRET'']"
  using assms by (simp add: handler_def returns_def)

theorem secret_unset_same_response_witness:
  "env_get empty_world ''CLERK_WEBHOOK_SECRET'' = None
   \<and> handler empty_world (signed_request (Some (event_of ''user.created'' [])))
       = handler empty_world (bare_request None)
   \<and> outcome (handler empty_world (signed_request (Some (event_of ''user.created'' []))))
       = Inr \<lparr>status = 500, body = Text ''Webhook secret not configured''\<rparr>
   \<and> trace (handler empty_world (signed_request (Some (event_of ''user.created'' []))))
       = [EnvGet ''CLERK_WEBHOOK_SECRET'']"
proof -
  have h: "env_get empty_world ''CLERK_WEBHOOK_SECRET'' = None"
    by (simp add: empty_world_def)
  show ?thesis
    using h secret_unset_same_response
      [OF h, of "signed_request (Some (event_of ''user.created'' []))" "bare_request None"]
    by blast
qed

text \<open>
  C10. With the secret configured, a \<^verbatim>\<open>svix-id\<close>, \<^verbatim>\<open>svix-timestamp\<close> or \<^verbatim>\<open>svix-signature\<close>
  header whose value is the empty string is treated as an absent one: the response is
  400 with the text "Error occured -- no svix headers", and the body is not read.
\<close>

theorem empty_header_as_absent:
  assumes "\<not> js_not (env_get w ''CLERK_WEBHOOK_SECRET'')"
    and "h \<in> {''svix-id'', ''svix-timestamp'', ''svix-signature''}"
    and "header_get req h = Some [] \<or> header_get req h = None"
  shows "outcome (handler w req)
           = Inr \<lparr>status = 400, body = Text ''Error occured -- no svix headers''\<rparr>
       \<and> ReadJson \<notin> set (trace (handler w req))"
proof -
  from assms(2,3) have "js_not (header_get req ''svix-id'')
      \<or> js_not (header_get req ''svix-timestamp'') \<or> js_not (header_get req ''svix-signature'')"
    by auto
  with assms(1) show ?thesis
    by (simp add: handler_def returns_def)
qed

theorem empty_header_as_absent_witness:
  "\<not> js_not (env_get echo_world ''CLERK_WEBHOOK_SECRET'')
   \<and> header_get \<lparr>header_get = (\<lambda>k. if k = ''svix-timestamp'' then Some [] else Some ''h''),
                  json = Some JNull\<rparr> ''svix-timestamp'' = Some []
   \<and> outcome (handler echo_world
        \<lparr>header_get = (\<lambda>k. if k = ''svix-timestamp'' then Some [] else Some ''h''),
         json = Some JNull\<rparr>)
       = Inr \<lparr>status = 400, body = Text ''Error occured -- no svix headers''\<rparr>"
proof -
  let ?req = "\<lparr>header_get = (\<lambda>k. if k = ''svix-timestamp'' then Some [] else Some ''h''),
                json = Some JNull\<rparr>"
  have s: "\<not> js_not (env_get echo_world ''CLERK_WEBHOOK_SECRET'')"
    by (simp add: echo_world_def)
  have m: "''svix-timestamp'' \<in> {''svix-id'', ''svix-timestamp'', ''svix-signature''}"
    by simp
  have e: "header_get ?req ''svix-timestamp'' = Some [] \<or> header_get ?req ''svix-timestamp'' = None"
    by simp
  show ?thesis
    using s empty_header_as_absent [OF s m e] by simp
qed

text \<open>
  C8. A request that passes every check and whose event type is none of the six
  recognized ones (any value at all, or no \<^verbatim>\<open>type\<close> property) gets 200 with the body
  \<^verbatim>\<open>{"success":true}\<close>, and no store call is issued.
\<close>

theorem unrecognized_type_is_noop:
  assumes "configured w" and "signed req" and "json req = Some event"
    and "get_prop event ''type'' = Inr ty" and "ty \<notin> set recognized"
  shows "outcome (handler w req)
           = Inr \<lparr>status = 200, body = Json (JObj [(''success'', JBool True)])\<rparr>
       \<and> store_calls (trace (handler w req)) = []"
proof -
  from assms(4) have n: "\<not> nullish event"
    by (auto simp add: nullish_def)
  with assms(4) have "peek event ''type'' = ty"
    by (simp add: get_prop_peek)
  with assms(5) n have "dispatch w event = returns [ConsoleLog ''Unhandled event type:'' event]
            \<lparr>status = 200, body = Json (JObj [(''success'', JBool True)])\<rparr>"
    by (simp add: dispatch_unrecognized)
  then show ?thesis
    by (simp add: handler_reaches_switch [OF assms(1,2,3)] after_def returns_def
        store_calls_append store_calls_prelude)
qed

theorem unrecognized_type_is_noop_witness:
  "configured echo_world \<and> signed (signed_request (Some (event_of ''unknown.event'' [])))
   \<and> JStr ''unknown.event'' \<notin> set recognized
   \<and> outcome (handler echo_world (signed_request (Some (event_of ''unknown.event'' []))))
       = Inr \<lparr>status = 200, body = Json (JObj [(''success'', JBool True)])\<rparr>
   \<and> store_calls (trace (handler echo_world (signed_request (Some (event_of ''unknown.event'' [])))))
       = []"
proof -
  let ?req = "signed_request (Some (event_of ''unknown.event'' []))"
  have c: "configured echo_world"
    by (simp add: configured_def echo_world_def)
  have s: "signed ?req"
    by (simp add: signed_def signed_request_def)
  have j: "json ?req = Some (event_of ''unknown.event'' [])"
    by (simp add: signed_request_def)
  have t: "get_prop (event_of ''unknown.event'' []) ''type'' = Inr (JStr ''unknown.event'')"
    by (simp add: event_of_def)
  have u: "JStr ''unknown.event'' \<notin> set recognized"
    by (simp add: recognized_def)
  show ?thesis
    using c s u unrecognized_type_is_noop [OF c s j t u] by simp
qed

text \<open>
  C1. The claim is that \<^verbatim>\<open>organization.updated\<close> issues an update against \<^verbatim>\<open>owners\<close> and
  \<^verbatim>\<open>organization.created\<close> a create against \<^verbatim>\<open>organizations\<close> that writes \<^verbatim>\<open>id\<close>, \<^verbatim>\<open>name\<close>
  and \<^verbatim>\<open>updated_at\<close>. The first half holds. The second does not: the branch calls
  \<^verbatim>\<open>create\<close>, which is not a method of the client (the sibling branches call \<^verbatim>\<open>insert\<close>), so
  at a well-formed \<^verbatim>\<open>organization.created\<close> event, with every variable and header set, the
  handler throws a TypeError, issues no store call and returns no response.
\<close>

theorem organization_created_issues_nothing:
  "outcome (handler echo_world (signed_request (Some (event_of ''organization.created''
      [(''id'', JStr ''org_1''), (''name'', JStr ''Acme''), (''updated_at'', JNum 0)]))))
     = Inl TypeError
   \<and> store_calls (trace (handler echo_world (signed_request (Some (event_of
        ''organization.created''
        [(''id'', JStr ''org_1''), (''name'', JStr ''Acme''), (''updated_at'', JNum 0)])))))
     = []"
  by code_simp

text \<open>
  C4. Whenever a branch issues a store call, that call is the only one of the request
  (there is no retry), and its result decides the response: an error gives 500 with the
  JSON body \<^verbatim>\<open>{ error: message }\<close>, a success gives 200 with the row as the JSON body
  \<^verbatim>\<open>{ user: row }\<close> or \<^verbatim>\<open>{ data: row }\<close>.
\<close>

theorem store_result_decides_response:
  assumes "StoreCall c \<in> set (trace (handler w req))"
  shows "store_calls (trace (handler w req)) = [c]
       \<and> (\<forall>msg. store w c = Failed msg \<longrightarrow>
             outcome (handler w req)
               = Inr \<lparr>status = 500, body = Json (JObj [(''error'', JStr msg)])\<rparr>)
       \<and> (\<forall>row. store w c = Succeeded row \<longrightarrow>
             outcome (handler w req) = Inr \<lparr>status = 200, body = Json (JObj [(''user'', row)])\<rparr>
             \<or> outcome (handler w req) = Inr \<lparr>status = 200, body = Json (JObj [(''data'', row)])\<rparr>)"
proof -
  from assms obtain event l k where
    r: "routed w (peek event ''type'') (peek event ''data'') = Inr (c, l, k)"
    and h: "handler w req = after prelude (await_store w c l k)"
    by (rule issued_call)
  from r have k: "k = ''user'' \<or> k = ''data''"
    by (rule routed_key)
  have 1: "store_calls (trace (handler w req)) = [c]"
    by (simp add: h trace_after store_calls_append store_calls_prelude await_store_calls)
  have 2: "outcome (handler w req) =
     (case store w c of
        Failed msg \<Rightarrow> Inr \<lparr>status = 500, body = Json (JObj [(''error'', JStr msg)])\<rparr>
      | Succeeded row \<Rightarrow> Inr \<lparr>status = 200, body = Json (JObj [(k, row)])\<rparr>)"
    by (simp add: h outcome_after await_store_outcome)
  from k 1 2 show ?thesis
    by auto
qed

theorem store_result_decides_response_witness:
  "StoreCall
     \<lparr>table = ''users'', verb = ''update'',
      vals = [(''first_name'', JStr ''A''), (''last_name'', JUndefined), (''avatar_url'', JUndefined),
              (''updated_at'', JStr ''1970-01-01T00:00:00.000Z'')],
      eq_filter = Some (''id'', JStr ''u1'')\<rparr>
     \<in> set (trace (handler failing_world (signed_request (Some (event_of ''user.updated''
          [(''id'', JStr ''u1''), (''first_name'', JStr ''A''), (''updated_at'', JNum 0)])))))
   \<and> outcome (handler failing_world (signed_request (Some (event_of ''user.updated''
          [(''id'', JStr ''u1''), (''first_name'', JStr ''A''), (''updated_at'', JNum 0)]))))
       = Inr \<lparr>status = 500, body = Json (JObj [(''error'', JStr ''duplicate key'')])\<rparr>"
proof -
  let ?req = "signed_request (Some (event_of ''user.updated''
          [(''id'', JStr ''u1''), (''first_name'', JStr ''A''), (''updated_at'', JNum 0)]))"
  let ?c = "\<lparr>table = ''users'', verb = ''update'',
      vals = [(''first_name'', JStr ''A''), (''last_name'', JUndefined), (''avatar_url'', JUndefined),
              (''updated_at'', JStr ''1970-01-01T00:00:00.000Z'')],
      eq_filter = Some (''id'', JStr ''u1'')\<rparr>"
  have i: "StoreCall ?c \<in> set (trace (handler failing_world ?req))"
    by code_simp
  have f: "store failing_world ?c = Failed ''duplicate key''"
    by (simp add: failing_world_def)
  from store_result_decides_response [OF i] f
  have "outcome (handler failing_world ?req)
       = Inr \<lparr>status = 500, body = Json (JObj [(''error'', JStr ''duplicate key'')])\<rparr>"
    by blast
  with i show ?thesis
    by blast
qed

text \<open>
  C9. Every store call the handler issues is keyed by the \<^verbatim>\<open>id\<close> of the incoming event's
  data, taken as it is: the value the update matches on, or the \<^verbatim>\<open>id\<close> of the row an
  insert or create writes. A call on \<^verbatim>\<open>members\<close> carries as \<^verbatim>\<open>user_id\<close> and
  \<^verbatim>\<open>organization_id\<close> the event's \<^verbatim>\<open>public_user_data?.user_id\<close> and \<^verbatim>\<open>organization?.id\<close>.
  The method called is insert, update or create, never delete.
\<close>

theorem calls_keyed_by_event_id:
  assumes "StoreCall c \<in> set (trace (handler w req))"
  shows "\<exists>event i.
           json req = Some event
         \<and> call_key c = Some i \<and> data_prop event ''id'' = Inr i
         \<and> (table c = ''members'' \<longrightarrow>
              (\<exists>u g. map_of (vals c) ''user_id'' = Some u
                   \<and> data_opt event ''public_user_data'' ''user_id'' = Inr u
                   \<and> map_of (vals c) ''organization_id'' = Some g
                   \<and> data_opt event ''organization'' ''id'' = Inr g))
         \<and> verb c \<in> {''insert'', ''update'', ''create''} \<and> verb c \<noteq> ''delete''"
proof -
  from assms obtain event l k where
    j: "json req = Some event" and n: "\<not> nullish event"
    and nd: "\<not> nullish (peek event ''data'')"
    and r: "routed w (peek event ''type'') (peek event ''data'') = Inr (c, l, k)"
    by (rule issued_call)
  have d: "get_prop event ''data'' = Inr (peek event ''data'')"
    using n by (rule get_prop_peek)
  have 1: "call_key c = Some (peek (peek event ''data'') ''id'')"
    using r by (rule routed_id)
  have 2: "data_prop event ''id'' = Inr (peek (peek event ''data'') ''id'')"
    using d nd by (rule data_prop_peek)
  have 3: "table c = ''members'' \<Longrightarrow>
      map_of (vals c) ''user_id'' = Some (peek (peek (peek event ''data'') ''public_user_data'') ''user_id'')
    \<and> map_of (vals c) ''organization_id'' = Some (peek (peek (peek event ''data'') ''organization'') ''id'')"
    using r by (rule routed_members)
  have 4: "data_opt event n' k' = Inr (peek (peek (peek event ''data'') n') k')" for n' k'
    using d nd by (rule data_opt_peek)
  have 5: "verb c \<in> {''insert'', ''update'', ''create''}"
    using r by (rule routed_verb)
  then have 6: "verb c \<noteq> ''delete''"
    by auto
  from j 1 2 3 4 5 6 show ?thesis
    by blast
qed

theorem calls_keyed_by_event_id_witness:
  "StoreCall
     \<lparr>table = ''members'', verb = ''update'',
      vals = [(''user_id'', JStr ''u2''), (''organization_id'', JStr ''o1''),
              (''updated_at'', JStr ''1970-01-01T00:00:00.000Z'')],
      eq_filter = Some (''id'', JStr ''m1'')\<rparr>
     \<in> set (trace (handler echo_world (signed_request (Some (event_of ''organizationMembership.updated''
          [(''id'', JStr ''m1''), (''public_user_data'', JObj [(''user_id'', JStr ''u2'')]),
           (''organization'', JObj [(''id'', JStr ''o1'')]), (''updated_at'', JNum 0)])))))
   \<and> data_prop (event_of ''organizationMembership.updated''
          [(''id'', JStr ''m1''), (''public_user_data'', JObj [(''user_id'', JStr ''u2'')]),
           (''organization'', JObj [(''id'', JStr ''o1'')]), (''updated_at'', JNum 0)]) ''id''
       = Inr (JStr ''m1'')"
proof -
  let ?e = "event_of ''organizationMembership.updated''
          [(''id'', JStr ''m1''), (''public_user_data'', JObj [(''user_id'', JStr ''u2'')]),
           (''organization'', JObj [(''id'', JStr ''o1'')]), (''updated_at'', JNum 0)]"
  let ?c = "\<lparr>table = ''members'', verb = ''update'',
      vals = [(''user_id'', JStr ''u2''), (''organization_id'', JStr ''o1''),
              (''updated_at'', JStr ''1970-01-01T00:00:00.000Z'')],
      eq_filter = Some (''id'', JStr ''m1'')\<rparr>"
  have i: "StoreCall ?c \<in> set (trace (handler echo_world (signed_request (Some ?e))))"
    by code_simp
  have k: "call_key ?c = Some (JStr ''m1'')"
    by (simp add: call_key_def)
  have j: "json (signed_request (Some ?e)) = Some ?e"
    by (rule signed_request_signed)
  from calls_keyed_by_event_id [OF i] j k
  have "data_prop ?e ''id'' = Inr (JStr ''m1'')"
    by auto
  with i show ?thesis
    by blast
qed

text \<open>
  C3, as the code has it. The handler ends every request, but not always with a response:
  it has no \<^verbatim>\<open>try\<close>. On the requests that do not reach the \<^verbatim>\<open>organization.created\<close> case
  it returns a response exactly on the answered ones, and on every other it throws: a
  SyntaxError on a body that is not JSON, a TypeError on a \<^verbatim>\<open>null\<close> payload or on a
  recognized event without data, a RangeError on a timestamp that is not a valid date.
\<close>

theorem response_iff_answered:
  assumes "\<not> reaches_create w req"
  shows "(answered w req \<longrightarrow> (\<exists>r. outcome (handler w req) = Inr r))
       \<and> (\<not> answered w req \<longrightarrow> (\<exists>e. outcome (handler w req) = Inl e))"
proof -
  have "(\<exists>r. outcome (handler w req) = Inr r) = answered w req"
    using dispatch_returns_iff [of w]
    by (auto simp add: handler_def Let_def answered_def signed_def returns_def throws_def
        outcome_after split: option.splits)
  then show ?thesis
    by (cases "outcome (handler w req)") auto
qed

theorem malformed_body_counterexample:
  "outcome (handler echo_world (signed_request None)) = Inl SyntaxError"
  by code_simp

theorem response_iff_answered_witness:
  "\<not> reaches_create echo_world (signed_request (Some (event_of ''user.created''
      [(''id'', JStr ''u1''), (''created_at'', JNum 0), (''updated_at'', JNum 0)])))
   \<and> answered echo_world (signed_request (Some (event_of ''user.created''
      [(''id'', JStr ''u1''), (''created_at'', JNum 0), (''updated_at'', JNum 0)])))
   \<and> (\<exists>r. outcome (handler echo_world (signed_request (Some (event_of ''user.created''
      [(''id'', JStr ''u1''), (''created_at'', JNum 0), (''updated_at'', JNum 0)])))) = Inr r)
   \<and> \<not> reaches_create echo_world (signed_request (Some (event_of ''user.created''
      [(''id'', JStr ''u1''), (''created_at'', JNum 0)])))
   \<and> \<not> answered echo_world (signed_request (Some (event_of ''user.created''
      [(''id'', JStr ''u1''), (''created_at'', JNum 0)])))
   \<and> (\<exists>e. outcome (handler echo_world (signed_request (Some (event_of ''user.created''
      [(''id'', JStr ''u1''), (''created_at'', JNum 0)])))) = Inl e)"
proof -
  let ?good = "signed_request (Some (event_of ''user.created''
      [(''id'', JStr ''u1''), (''created_at'', JNum 0), (''updated_at'', JNum 0)]))"
  let ?bad = "signed_request (Some (event_of ''user.created''
      [(''id'', JStr ''u1''), (''created_at'', JNum 0)]))"
  have g: "\<not> reaches_create echo_world ?good"
    by code_simp
  have h: "\<not> reaches_create echo_world ?bad"
    by code_simp
  have a: "answered echo_world ?good"
    by code_simp
  have b: "\<not> answered echo_world ?bad"
    by code_simp
  from g h a b response_iff_answered [OF g] response_iff_answered [OF h]
  show ?thesis
    by blast
qed

text \<open>
  C2, as the code has it. When a variable of the configuration is missing, no store call
  is issued and the secret is read first. A missing secret gives 500 before any header
  or the body is looked at. A missing store URL or service key is found only after the
  header check has passed and the body has been parsed: a request without the headers
  gets 400, one whose body is not JSON ends in a SyntaxError, and the others get 500
  with the text "Supabase credentials not configured".
\<close>

theorem missing_configuration_response:
  assumes "\<not> configured w"
  shows "handler w req =
     (if js_not (env_get w ''CLERK_WEBHOOK_SECRET'')
      then returns [EnvGet ''CLERK_WEBHOOK_SECRET'']
             \<lparr>status = 500, body = Text ''Webhook secret not configured''\<rparr>
      else if \<not> signed req
      then returns [EnvGet ''CLERK_WEBHOOK_SECRET'', HeaderGet ''svix-id'',
                    HeaderGet ''svix-timestamp'', HeaderGet ''svix-signature'']
             \<lparr>status = 400, body = Text ''Error occured -- no svix headers''\<rparr>
      else if json req = None
      then throws [EnvGet ''CLERK_WEBHOOK_SECRET'', HeaderGet ''svix-id'',
                   HeaderGet ''svix-timestamp'', HeaderGet ''svix-signature'', ReadJson]
             SyntaxError
      else returns [EnvGet ''CLERK_WEBHOOK_SECRET'', HeaderGet ''svix-id'',
                    HeaderGet ''svix-timestamp'', HeaderGet ''svix-signature'', ReadJson,
                    EnvGet ''SUPABASE_URL'', EnvGet ''SUPABASE_SERVICE_ROLE_KEY'']
             \<lparr>status = 500, body = Text ''Supabase credentials not configured''\<rparr>)
     \<and> store_calls (trace (handler w req)) = []"
  using assms
  by (auto simp add: handler_def Let_def configured_def signed_def returns_def throws_def
      split: option.splits)

theorem missing_configuration_counterexample:
  "env_get secret_only_world ''SUPABASE_URL'' = None
   \<and> outcome (handler secret_only_world (bare_request (Some (JObj []))))
       = Inr \<lparr>status = 400, body = Text ''Error occured -- no svix headers''\<rparr>
   \<and> trace (handler secret_only_world (signed_request (Some (JObj []))))
       = [EnvGet ''CLERK_WEBHOOK_SECRET'', HeaderGet ''svix-id'', HeaderGet ''svix-timestamp'',
          HeaderGet ''svix-signature'', ReadJson, EnvGet ''SUPABASE_URL'',
          EnvGet ''SUPABASE_SERVICE_ROLE_KEY'']"
  by code_simp

theorem missing_configuration_response_witness:
  "\<not> configured secret_only_world
   \<and> handler secret_only_world (signed_request (Some (JObj [])))
       = returns [EnvGet ''CLERK_WEBHOOK_SECRET'', HeaderGet ''svix-id'',
                  HeaderGet ''svix-timestamp'', HeaderGet ''svix-signature'', ReadJson,
                  EnvGet ''SUPABASE_URL'', EnvGet ''SUPABASE_SERVICE_ROLE_KEY'']
           \<lparr>status = 500, body = Text ''Supabase credentials not configured''\<rparr>"
proof -
  have c: "\<not> configured secret_only_world"
    by (simp add: configured_def secret_only_world_def)
  have s: "\<not> js_not (env_get secret_only_world ''CLERK_WEBHOOK_SECRET'')"
    by (simp add: secret_only_world_def)
  have h: "signed (signed_request (Some (JObj [])))"
    by (rule signed_request_signed)
  have j: "json (signed_request (Some (JObj []))) \<noteq> None"
    by (simp add: signed_request_def)
  from missing_configuration_response [OF c, of "signed_request (Some (JObj []))"] s h j
  have "handler secret_only_world (signed_request (Some (JObj [])))
       = returns [EnvGet ''CLERK_WEBHOOK_SECRET'', HeaderGet ''svix-id'',
                  HeaderGet ''svix-timestamp'', HeaderGet ''svix-signature'', ReadJson,
                  EnvGet ''SUPABASE_URL'', EnvGet ''SUPABASE_SERVICE_ROLE_KEY'']
           \<lparr>status = 500, body = Text ''Supabase credentials not configured''\<rparr>"
    by simp
  with c show ?thesis
    by blast
qed

text \<open>
  C5. For an event whose \<^verbatim>\<open>created_at\<close> and \<^verbatim>\<open>updated_at\<close> are integers, every store call
  the handler issues writes as \<^verbatim>\<open>updated_at\<close> the ISO-8601 UTC string of the event's
  \<^verbatim>\<open>updated_at\<close>, and where it writes a \<^verbatim>\<open>created_at\<close>, the ISO string of the event's
  \<^verbatim>\<open>created_at\<close>. A \<^verbatim>\<open>user.created\<close> event with both in the range of time values has its
  insert into \<^verbatim>\<open>users\<close> issued with the two strings, and the string of 0 is
  \<^verbatim>\<open>1970-01-01T00:00:00.000Z\<close>.
\<close>

theorem timestamps_written_as_iso:
  assumes "json req = Some event"
    and "data_prop event ''created_at'' = Inr (JNum tc)"
    and "data_prop event ''updated_at'' = Inr (JNum tu)"
  shows "(\<forall>c. StoreCall c \<in> set (trace (handler w req)) \<longrightarrow>
            map_of (vals c) ''updated_at'' = Some (JStr (iso_string tu))
          \<and> (\<forall>v. map_of (vals c) ''created_at'' = Some v \<longrightarrow> v = JStr (iso_string tc)))
       \<and> (configured w \<and> signed req \<and> get_prop event ''type'' = Inr (JStr ''user.created'')
          \<and> \<bar>tc\<bar> \<le> 8640000000000000 \<and> \<bar>tu\<bar> \<le> 8640000000000000 \<longrightarrow>
            (\<exists>c. store_calls (trace (handler w req)) = [c]
               \<and> table c = ''users'' \<and> verb c = ''insert''
               \<and> map_of (vals c) ''created_at'' = Some (JStr (iso_string tc))
               \<and> map_of (vals c) ''updated_at'' = Some (JStr (iso_string tu))))
       \<and> iso_string 0 = ''1970-01-01T00:00:00.000Z''"
proof (intro conjI allI impI)
  let ?d = "peek event ''data''"
  note n = data_prop_Inr(1) [OF assms(2)]
  note nd = data_prop_Inr(2) [OF assms(2)]
  note pc = data_prop_Inr(3) [OF assms(2)]
  note pu = data_prop_Inr(3) [OF assms(3)]
  {
    fix c
    assume "StoreCall c \<in> set (trace (handler w req))"
    then obtain event' l k where "json req = Some event'"
      and "routed w (peek event' ''type'') (peek event' ''data'') = Inr (c, l, k)"
      by (rule issued_call)
    with assms(1) have r: "routed w (peek event ''type'') ?d = Inr (c, l, k)"
      by simp
    from routed_updated_at [OF r] obtain t where
      "new_Date w (JNum tu) = Some t" "map_of (vals c) ''updated_at'' = Some (JStr (iso_string t))"
      unfolding pu by blast
    then show "map_of (vals c) ''updated_at'' = Some (JStr (iso_string tu))"
      using new_Date_num by blast
    fix v
    assume "map_of (vals c) ''created_at'' = Some v"
    from routed_created_at [OF r this] obtain t where
      "new_Date w (JNum tc) = Some t" "v = JStr (iso_string t)"
      unfolding pc by blast
    then show "v = JStr (iso_string tc)"
      using new_Date_num by blast
  }
  {
    assume a: "configured w \<and> signed req \<and> get_prop event ''type'' = Inr (JStr ''user.created'')
          \<and> \<bar>tc\<bar> \<le> 8640000000000000 \<and> \<bar>tu\<bar> \<le> 8640000000000000"
    then have ty: "peek event ''type'' = JStr ''user.created''"
      using get_prop_peek [OF n, of "''type''"] by simp
    then have rec: "peek event ''type'' \<in> set recognized"
      by (simp add: recognized_def)
    have r: "routed w (peek event ''type'') ?d
        = Inr (insert_users ?d tc tu, ''Error creating user:'', ''user'')"
      using a by (simp add: ty routed_def date_value_def pc pu time_clip_def)
    have "handler w req
        = after prelude (await_store w (insert_users ?d tc tu) ''Error creating user:'' ''user'')"
      using a assms(1) n rec nd r by (intro handler_routed) simp_all
    then have "store_calls (trace (handler w req)) = [insert_users ?d tc tu]"
      by (simp only: store_calls_awaited)
    then show "\<exists>c. store_calls (trace (handler w req)) = [c]
               \<and> table c = ''users'' \<and> verb c = ''insert''
               \<and> map_of (vals c) ''created_at'' = Some (JStr (iso_string tc))
               \<and> map_of (vals c) ''updated_at'' = Some (JStr (iso_string tu))"
      by (simp add: insert_users_def)
  }
  show "iso_string 0 = ''1970-01-01T00:00:00.000Z''"
    by (rule iso_string_epoch)
qed

theorem timestamps_written_as_iso_witness:
  "json (signed_request (Some (event_of ''user.created''
      [(''id'', JStr ''u1''), (''first_name'', JStr ''A''), (''last_name'', JStr ''B''),
       (''image_url'', JStr ''img''), (''created_at'', JNum 0), (''updated_at'', JNum 0)])))
     = Some (event_of ''user.created''
      [(''id'', JStr ''u1''), (''first_name'', JStr ''A''), (''last_name'', JStr ''B''),
       (''image_url'', JStr ''img''), (''created_at'', JNum 0), (''updated_at'', JNum 0)])
   \<and> data_prop (event_of ''user.created''
      [(''id'', JStr ''u1''), (''first_name'', JStr ''A''), (''last_name'', JStr ''B''),
       (''image_url'', JStr ''img''), (''created_at'', JNum 0), (''updated_at'', JNum 0)])
       ''created_at'' = Inr (JNum 0)
   \<and> (\<exists>c. store_calls (trace (handler echo_world (signed_request (Some (event_of ''user.created''
      [(''id'', JStr ''u1''), (''first_name'', JStr ''A''), (''last_name'', JStr ''B''),
       (''image_url'', JStr ''img''), (''created_at'', JNum 0), (''updated_at'', JNum 0)])))))
         = [c]
       \<and> table c = ''users'' \<and> verb c = ''insert''
       \<and> map_of (vals c) ''created_at'' = Some (JStr ''1970-01-01T00:00:00.000Z'')
       \<and> map_of (vals c) ''updated_at'' = Some (JStr ''1970-01-01T00:00:00.000Z''))"
proof -
  let ?e = "event_of ''user.created''
      [(''id'', JStr ''u1''), (''first_name'', JStr ''A''), (''last_name'', JStr ''B''),
       (''image_url'', JStr ''img''), (''created_at'', JNum 0), (''updated_at'', JNum 0)]"
  have j: "json (signed_request (Some ?e)) = Some ?e"
    by (rule signed_request_signed)
  have c: "data_prop ?e ''created_at'' = Inr (JNum 0)"
    by (simp add: data_prop_def event_of_def)
  have u: "data_prop ?e ''updated_at'' = Inr (JNum 0)"
    by (simp add: data_prop_def event_of_def)
  have t: "get_prop ?e ''type'' = Inr (JStr ''user.created'')"
    by (simp add: event_of_def)
  have w: "configured echo_world" "signed (signed_request (Some ?e))"
    by (rule worlds_configured, rule signed_request_signed)
  have a: "configured echo_world \<and> signed (signed_request (Some ?e))
      \<and> get_prop ?e ''type'' = Inr (JStr ''user.created'')
      \<and> \<bar>0::int\<bar> \<le> 8640000000000000 \<and> \<bar>0::int\<bar> \<le> 8640000000000000"
    using w t by simp
  from timestamps_written_as_iso [OF j c u, of echo_world] a
  have "\<exists>c. store_calls (trace (handler echo_world (signed_request (Some ?e)))) = [c]
       \<and> table c = ''users'' \<and> verb c = ''insert''
       \<and> map_of (vals c) ''created_at'' = Some (JStr (iso_string 0))
       \<and> map_of (vals c) ''updated_at'' = Some (JStr (iso_string 0))"
    by blast
  then show ?thesis
    unfolding iso_string_epoch using j c by blast
qed

text \<open>
  C6. An \<^verbatim>\<open>organizationMembership.created\<close> event whose data is an object with valid
  timestamps has one call issued, an insert into \<^verbatim>\<open>members\<close>. Its \<^verbatim>\<open>user_id\<close> is the
  \<^verbatim>\<open>user_id\<close> of the nested \<^verbatim>\<open>public_user_data\<close> and its \<^verbatim>\<open>organization_id\<close> the \<^verbatim>\<open>id\<close> of
  the nested \<^verbatim>\<open>organization\<close>, whatever other properties the data has; where the nested
  object is absent (or is not an object) the value written is \<^verbatim>\<open>undefined\<close>, and the
  insert is issued all the same.
\<close>

theorem membership_created_nested_ids:
  assumes "configured w" and "signed req" and "json req = Some (JObj ev)"
    and "map_of ev ''type'' = Some (JStr ''organizationMembership.created'')"
    and "map_of ev ''data'' = Some (JObj d)"
    and "new_Date w (field d ''created_at'') = Some tc"
    and "new_Date w (field d ''updated_at'') = Some tu"
  shows "\<exists>c. store_calls (trace (handler w req)) = [c]
           \<and> table c = ''members'' \<and> verb c = ''insert''
           \<and> map_of (vals c) ''id'' = Some (field d ''id'')
           \<and> map_of (vals c) ''user_id''
               = Some (case map_of d ''public_user_data'' of
                         Some (JObj p) \<Rightarrow> field p ''user_id'' | _ \<Rightarrow> JUndefined)
           \<and> map_of (vals c) ''organization_id''
               = Some (case map_of d ''organization'' of
                         Some (JObj g) \<Rightarrow> field g ''id'' | _ \<Rightarrow> JUndefined)"
proof -
  have n: "\<not> nullish (JObj ev)"
    by (simp add: nullish_def)
  have ty: "peek (JObj ev) ''type'' = JStr ''organizationMembership.created''"
    using assms(4) by (simp add: field_def)
  have rec: "peek (JObj ev) ''type'' \<in> set recognized"
    unfolding ty by (simp add: recognized_def)
  have d: "peek (JObj ev) ''data'' = JObj d"
    using assms(5) by (simp add: field_def)
  have nd: "\<not> nullish (peek (JObj ev) ''data'')"
    unfolding d by (simp add: nullish_def)
  have r: "routed w (peek (JObj ev) ''type'') (peek (JObj ev) ''data'')
      = Inr (insert_members (JObj d) tc tu, ''Error updating member:'', ''data'')"
    unfolding ty d using assms(6,7) by (simp add: routed_def date_value_def)
  have "handler w req
      = after prelude (await_store w (insert_members (JObj d) tc tu) ''Error updating member:'' ''data'')"
    using assms(1,2,3) n rec nd r by (rule handler_routed)
  then have s: "store_calls (trace (handler w req)) = [insert_members (JObj d) tc tu]"
    by (simp only: store_calls_awaited)
  have p: "peek (field d k) k' = (case map_of d k of Some (JObj p) \<Rightarrow> field p k' | _ \<Rightarrow> JUndefined)"
    for k k'
    by (simp add: field_def split: option.splits jsval.splits)
  show ?thesis
    unfolding s by (simp add: insert_members_def p)
qed

theorem membership_created_nested_ids_witness:
  "(\<exists>c. store_calls (trace (handler echo_world (signed_request (Some (event_of
        ''organizationMembership.created''
        [(''id'', JStr ''m1''), (''public_user_data'', JObj [(''user_id'', JStr ''u2'')]),
         (''organization'', JObj [(''id'', JStr ''o1'')]),
         (''created_at'', JNum 0), (''updated_at'', JNum 0)]))))) = [c]
      \<and> map_of (vals c) ''user_id'' = Some (JStr ''u2'')
      \<and> map_of (vals c) ''organization_id'' = Some (JStr ''o1''))
   \<and> (\<exists>c. store_calls (trace (handler echo_world (signed_request (Some (event_of
        ''organizationMembership.created''
        [(''id'', JStr ''m1''), (''user_id'', JStr ''top''),
         (''created_at'', JNum 0), (''updated_at'', JNum 0)]))))) = [c]
      \<and> map_of (vals c) ''user_id'' = Some JUndefined
      \<and> map_of (vals c) ''organization_id'' = Some JUndefined)"
proof -
  let ?d1 = "[(''id'', JStr ''m1''), (''public_user_data'', JObj [(''user_id'', JStr ''u2'')]),
         (''organization'', JObj [(''id'', JStr ''o1'')]),
         (''created_at'', JNum 0), (''updated_at'', JNum 0)]"
  let ?d2 = "[(''id'', JStr ''m1''), (''user_id'', JStr ''top''),
         (''created_at'', JNum 0), (''updated_at'', JNum 0)]"
  let ?ev = "\<lambda>d. [(''data'', JObj d), (''object'', JStr ''event''),
                  (''type'', JStr ''organizationMembership.created'')]"
  have c: "configured echo_world"
    by (rule worlds_configured)
  have s: "signed (signed_request (Some (event_of ''organizationMembership.created'' d)))" for d
    by (rule signed_request_signed)
  have j: "json (signed_request (Some (event_of ''organizationMembership.created'' d)))
      = Some (JObj (?ev d))" for d
    by (simp add: signed_request_def event_of_def)
  have t: "map_of (?ev d) ''type'' = Some (JStr ''organizationMembership.created'')" for d
    by simp
  have m: "map_of (?ev d) ''data'' = Some (JObj d)" for d
    by simp
  have t1: "new_Date echo_world (field ?d1 ''created_at'') = Some 0"
    "new_Date echo_world (field ?d1 ''updated_at'') = Some 0"
    by (simp_all add: field_def time_clip_def)
  have t2: "new_Date echo_world (field ?d2 ''created_at'') = Some 0"
    "new_Date echo_world (field ?d2 ''updated_at'') = Some 0"
    by (simp_all add: field_def time_clip_def)
  have f1: "field ?d1 ''id'' = JStr ''m1''"
    "(case map_of ?d1 ''public_user_data'' of Some (JObj p) \<Rightarrow> field p ''user_id'' | _ \<Rightarrow> JUndefined)
       = JStr ''u2''"
    "(case map_of ?d1 ''organization'' of Some (JObj g) \<Rightarrow> field g ''id'' | _ \<Rightarrow> JUndefined)
       = JStr ''o1''"
    by (simp_all add: field_def)
  have f2: "field ?d2 ''id'' = JStr ''m1''"
    "(case map_of ?d2 ''public_user_data'' of Some (JObj p) \<Rightarrow> field p ''user_id'' | _ \<Rightarrow> JUndefined)
       = JUndefined"
    "(case map_of ?d2 ''organization'' of Some (JObj g) \<Rightarrow> field g ''id'' | _ \<Rightarrow> JUndefined)
       = JUndefined"
    by (simp_all add: field_def)
  from membership_created_nested_ids [OF c s j t m t1]
  have a: "\<exists>c. store_calls (trace (handler echo_world (signed_request (Some (event_of
        ''organizationMembership.created'' ?d1))))) = [c]
      \<and> map_of (vals c) ''user_id'' = Some (JStr ''u2'')
      \<and> map_of (vals c) ''organization_id'' = Some (JStr ''o1'')"
    unfolding f1 by blast
  from membership_created_nested_ids [OF c s j t m t2]
  have b: "\<exists>c. store_calls (trace (handler echo_world (signed_request (Some (event_of
        ''organizationMembership.created'' ?d2))))) = [c]
      \<and> map_of (vals c) ''user_id'' = Some JUndefined
      \<and> map_of (vals c) ''organization_id'' = Some JUndefined"
    unfolding f2 by blast
  from a b show ?thesis
    by (rule conjI)
qed

end
